theory Spec2Isabelle
  imports Complex_Main
begin

section \<open>JavaScript strings\<close>

text \<open>
  A JavaScript string is a sequence of UTF-16 code units. The embedding keeps each code
  unit as a natural number, so that text produced by a \<open>\uXXXX\<close> escape of a JSON
  document is represented as faithfully as text typed into the source. \<open>js\<close> turns a
  literal of the source into its code units.
\<close>

type_synonym jsstring = "nat list"

definition js :: "string \<Rightarrow> jsstring" where
  "js s = map of_char s"

definition ch :: "char \<Rightarrow> nat" where
  "ch c = of_char c"

text \<open>\<open>String.prototype.split\<close> with a one-character separator: never an empty array.\<close>

fun split_on :: "nat \<Rightarrow> jsstring \<Rightarrow> jsstring list" where
  "split_on d [] = [[]]"
| "split_on d (c # cs) =
     (case split_on d cs of
        [] \<Rightarrow> (if c = d then [[], []] else [[c]])
      | seg # segs \<Rightarrow> (if c = d then [] # seg # segs else (c # seg) # segs))"

text \<open>\<open>String.prototype.includes\<close>: the needle occurs somewhere in the haystack.\<close>

fun is_prefix :: "jsstring \<Rightarrow> jsstring \<Rightarrow> bool" where
  "is_prefix [] ys = True"
| "is_prefix (x # xs) [] = False"
| "is_prefix (x # xs) (y # ys) = (x = y \<and> is_prefix xs ys)"

fun str_includes :: "jsstring \<Rightarrow> jsstring \<Rightarrow> bool" where
  "str_includes [] needle = is_prefix needle []"
| "str_includes (c # cs) needle = (is_prefix needle (c # cs) \<or> str_includes cs needle)"

text \<open>Decimal digits of a non-negative integer, as \<open>String(n)\<close> prints them.\<close>

fun nat_to_string :: "nat \<Rightarrow> jsstring" where
  "nat_to_string n =
     (if n < 10 then [48 + n] else nat_to_string (n div 10) @ [48 + n mod 10])"

declare nat_to_string.simps [simp del]

section \<open>The platform function \<open>atob\<close>\<close>

text \<open>
  \<open>atob\<close> is the forgiving-base64 decoder of the HTML standard: ASCII whitespace is
  removed, up to two trailing \<open>=\<close> are dropped when the length is a multiple of four, a
  length of 1 modulo 4 and any character outside \<open>A-Z a-z 0-9 + /\<close> are errors, and the
  bits left over in the last group are discarded. \<open>None\<close> is the thrown
  \<open>InvalidCharacterError\<close>. The alphabet is the standard one: the characters \<open>-\<close> and
  \<open>_\<close> of the URL-safe alphabet are rejected.
\<close>

definition ascii_whitespace :: "nat \<Rightarrow> bool" where
  "ascii_whitespace c = (c = 9 \<or> c = 10 \<or> c = 12 \<or> c = 13 \<or> c = 32)"

definition b64_value :: "nat \<Rightarrow> nat option" where
  "b64_value c =
     (if 65 \<le> c \<and> c \<le> 90 then Some (c - 65)
      else if 97 \<le> c \<and> c \<le> 122 then Some (c - 71)
      else if 48 \<le> c \<and> c \<le> 57 then Some (c + 4)
      else if c = 43 then Some 62
      else if c = 47 then Some 63
      else None)"

fun b64_groups :: "nat list \<Rightarrow> nat list" where
  "b64_groups (a # b # c # d # rest) =
     (let n = ((a * 64 + b) * 64 + c) * 64 + d
      in (n div 65536) # ((n div 256) mod 256) # (n mod 256) # b64_groups rest)"
| "b64_groups [a, b, c] =
     (let n = (a * 64 + b) * 64 + c in [n div 1024, (n div 4) mod 256])"
| "b64_groups [a, b] = [(a * 64 + b) div 16]"
| "b64_groups [a] = []"
| "b64_groups [] = []"

definition strip_padding :: "jsstring \<Rightarrow> jsstring" where
  "strip_padding d =
     (if length d mod 4 = 0 then
        (case rev d of
           p # q # rest \<Rightarrow>
             (if p = 61 \<and> q = 61 then rev rest
              else if p = 61 then rev (q # rest) else d)
         | _ \<Rightarrow> d)
      else d)"

definition atob :: "jsstring \<Rightarrow> jsstring option" where
  "atob data =
     (let d = strip_padding (filter (\<lambda>c. \<not> ascii_whitespace c) data)
      in if length d mod 4 = 1 then None
         else map_option b64_groups (those (map b64_value d)))"

section \<open>JSON values and \<open>JSON.parse\<close>\<close>

subsection \<open>Numbers\<close>

text \<open>
  A number of the program is an IEEE-754 double: \<open>NaN\<close>, an infinity, or a finite
  value, kept as the rational it denotes. The two zeros are one value here: they are
  equal, both falsy, print alike, and their products compare alike.
\<close>

datatype jsnum = NaN | PosInf | NegInf | Fin rat

text \<open>
  \<open>to_double q\<close> is the double nearest to the real \<open>q\<close>, ties going to the even
  significand: what the engine makes of a numeric literal and of the exact result of
  an arithmetic operation. A positive \<open>a\<close> in the binade \<open>2^e \<le> a < 2^(e+1)\<close> is rounded
  to a multiple of \<open>2^(e-52)\<close>, and of \<open>2^-1074\<close> in the subnormal range; a result of
  \<open>2^1024\<close> or more is an infinity.
\<close>

definition pow2 :: "int \<Rightarrow> rat" where
  "pow2 p = (if 0 \<le> p then 2 ^ nat p else 1 / 2 ^ nat (- p))"

fun bit_length :: "nat \<Rightarrow> nat" where
  "bit_length n = (if n = 0 then 0 else Suc (bit_length (n div 2)))"

declare bit_length.simps [simp del]

definition binade :: "rat \<Rightarrow> int" where
  "binade a =
     (if 1 \<le> a then int (bit_length (nat \<lfloor>a\<rfloor>)) - 1
      else - int (bit_length (nat (\<lceil>1 / a\<rceil> - 1))))"

definition round_half_even :: "rat \<Rightarrow> int" where
  "round_half_even r =
     (let f = \<lfloor>r\<rfloor>; d = r - of_int f
      in if d < 1 / 2 then f
         else if 1 / 2 < d then f + 1
         else if even f then f else f + 1)"

definition to_double_pos :: "rat \<Rightarrow> jsnum" where
  "to_double_pos a =
     (let p = max (binade a - 52) (- 1074);
          y = of_int (round_half_even (a / pow2 p)) * pow2 p
      in if 2 ^ 1024 \<le> y then PosInf else Fin y)"

definition negate :: "jsnum \<Rightarrow> jsnum" where
  "negate n =
     (case n of NaN \<Rightarrow> NaN | PosInf \<Rightarrow> NegInf | NegInf \<Rightarrow> PosInf | Fin y \<Rightarrow> Fin (- y))"

definition to_double :: "rat \<Rightarrow> jsnum" where
  "to_double q =
     (if q = 0 then Fin 0
      else if 0 < q then to_double_pos q
      else negate (to_double_pos (- q)))"

subsection \<open>Values\<close>

text \<open>
  The values of the program: those \<open>JSON.parse\<close> can produce, and \<open>undefined\<close>, which
  a parsed document never contains but a property read can give. The members of an
  object are kept in the order of the text, duplicates included; a property read takes
  the last one, as the parser's later definitions overwrite earlier ones.
\<close>

datatype jsval =
    JUndefined
  | JNull
  | JBool bool
  | JNum jsnum
  | JStr jsstring
  | JArr "jsval list"
  | JObj "(jsstring \<times> jsval) list"

datatype token =
    TLBrace | TRBrace | TLBracket | TRBracket | TColon | TComma
  | TScalar jsval

text \<open>
  The lexer reads one code unit at a time. A number is accumulated as sign, the digits
  of integer and fraction part read as one natural number, the count of fraction digits,
  and the exponent.
\<close>

datatype nphase = NMinus | NZero | NInt | NDot | NFrac | NExpMark | NExpSign | NExp

record numacc =
  neg :: bool
  mant :: nat
  fracn :: nat
  eneg :: bool
  expn :: nat

definition num0 :: "bool \<Rightarrow> nat \<Rightarrow> numacc" where
  "num0 sign d = \<lparr>neg = sign, mant = d, fracn = 0, eneg = False, expn = 0\<rparr>"

datatype lstate =
    LIdle
  | LStr jsstring
  | LEsc jsstring
  | LUni jsstring nat nat
  | LLit jsstring jsval
  | LNum nphase numacc

definition pow10 :: "int \<Rightarrow> rat" where
  "pow10 e = (if 0 \<le> e then 10 ^ nat e else 1 / 10 ^ nat (- e))"

text \<open>
  The mathematical value of a number literal, and the double the parser makes of it.
\<close>

definition num_exact :: "numacc \<Rightarrow> rat" where
  "num_exact a =
     (if neg a then - 1 else 1) * of_nat (mant a)
       * pow10 ((if eneg a then - int (expn a) else int (expn a)) - int (fracn a))"

definition num_value :: "numacc \<Rightarrow> jsnum" where
  "num_value a = to_double (num_exact a)"

definition is_digit :: "nat \<Rightarrow> bool" where
  "is_digit c = (48 \<le> c \<and> c \<le> 57)"

definition hex_value :: "nat \<Rightarrow> nat option" where
  "hex_value c =
     (if 48 \<le> c \<and> c \<le> 57 then Some (c - 48)
      else if 65 \<le> c \<and> c \<le> 70 then Some (c - 55)
      else if 97 \<le> c \<and> c \<le> 102 then Some (c - 87)
      else None)"

definition accepting :: "nphase \<Rightarrow> bool" where
  "accepting ph = (ph = NZero \<or> ph = NInt \<or> ph = NFrac \<or> ph = NExp)"

definition idle_char :: "nat \<Rightarrow> (lstate \<times> token list) option" where
  "idle_char c =
     (if c = 32 \<or> c = 9 \<or> c = 10 \<or> c = 13 then Some (LIdle, [])
      else if c = ch CHR ''{'' then Some (LIdle, [TLBrace])
      else if c = ch CHR ''}'' then Some (LIdle, [TRBrace])
      else if c = ch CHR ''['' then Some (LIdle, [TLBracket])
      else if c = ch CHR '']'' then Some (LIdle, [TRBracket])
      else if c = ch CHR '':'' then Some (LIdle, [TColon])
      else if c = ch CHR '','' then Some (LIdle, [TComma])
      else if c = 34 then Some (LStr [], [])
      else if c = ch CHR ''-'' then Some (LNum NMinus (num0 True 0), [])
      else if c = ch CHR ''0'' then Some (LNum NZero (num0 False 0), [])
      else if is_digit c then Some (LNum NInt (num0 False (c - 48)), [])
      else if c = ch CHR ''t'' then Some (LLit (js ''rue'') (JBool True), [])
      else if c = ch CHR ''f'' then Some (LLit (js ''alse'') (JBool False), [])
      else if c = ch CHR ''n'' then Some (LLit (js ''ull'') JNull, [])
      else None)"

text \<open>The step of a number: \<open>None\<close> when the code unit does not continue the literal.\<close>

definition num_char :: "nphase \<Rightarrow> numacc \<Rightarrow> nat \<Rightarrow> (nphase \<times> numacc) option" where
  "num_char ph a c =
     (if is_digit c then
        (case ph of
           NMinus \<Rightarrow> Some (if c = 48 then NZero else NInt, a\<lparr>mant := c - 48\<rparr>)
         | NZero \<Rightarrow> None
         | NInt \<Rightarrow> Some (NInt, a\<lparr>mant := mant a * 10 + (c - 48)\<rparr>)
         | NDot \<Rightarrow> Some (NFrac, a\<lparr>mant := mant a * 10 + (c - 48), fracn := Suc (fracn a)\<rparr>)
         | NFrac \<Rightarrow> Some (NFrac, a\<lparr>mant := mant a * 10 + (c - 48), fracn := Suc (fracn a)\<rparr>)
         | NExpMark \<Rightarrow> Some (NExp, a\<lparr>expn := c - 48\<rparr>)
         | NExpSign \<Rightarrow> Some (NExp, a\<lparr>expn := c - 48\<rparr>)
         | NExp \<Rightarrow> Some (NExp, a\<lparr>expn := expn a * 10 + (c - 48)\<rparr>))
      else if c = ch CHR ''.'' then
        (if ph = NZero \<or> ph = NInt then Some (NDot, a) else None)
      else if c = ch CHR ''e'' \<or> c = ch CHR ''E'' then
        (if ph = NZero \<or> ph = NInt \<or> ph = NFrac then Some (NExpMark, a) else None)
      else if c = ch CHR ''+'' \<or> c = ch CHR ''-'' then
        (if ph = NExpMark then Some (NExpSign, a\<lparr>eneg := (c = ch CHR ''-'')\<rparr>) else None)
      else None)"

definition escape_char :: "nat \<Rightarrow> nat option" where
  "escape_char c =
     (if c = 34 then Some 34
      else if c = 92 then Some 92
      else if c = ch CHR ''/'' then Some 47
      else if c = ch CHR ''b'' then Some 8
      else if c = ch CHR ''f'' then Some 12
      else if c = ch CHR ''n'' then Some 10
      else if c = ch CHR ''r'' then Some 13
      else if c = ch CHR ''t'' then Some 9
      else None)"

fun lstep :: "lstate \<Rightarrow> nat \<Rightarrow> (lstate \<times> token list) option" where
  "lstep LIdle c = idle_char c"
| "lstep (LStr acc) c =
     (if c = 34 then Some (LIdle, [TScalar (JStr (rev acc))])
      else if c = 92 then Some (LEsc acc, [])
      else if c < 32 then None
      else Some (LStr (c # acc), []))"
| "lstep (LEsc acc) c =
     (if c = ch CHR ''u'' then Some (LUni acc 0 0, [])
      else map_option (\<lambda>e. (LStr (e # acc), [])) (escape_char c))"
| "lstep (LUni acc n k) c =
     (case hex_value c of
        None \<Rightarrow> None
      | Some h \<Rightarrow>
          if k = 3 then Some (LStr ((n * 16 + h) # acc), [])
          else Some (LUni acc (n * 16 + h) (Suc k), []))"
| "lstep (LLit [] v) c = None"
| "lstep (LLit (x # xs) v) c =
     (if c \<noteq> x then None
      else if xs = [] then Some (LIdle, [TScalar v])
      else Some (LLit xs v, []))"
| "lstep (LNum ph a) c =
     (case num_char ph a c of
        Some (ph', a') \<Rightarrow> Some (LNum ph' a', [])
      | None \<Rightarrow>
          if accepting ph then
            map_option (\<lambda>(st, ts). (st, TScalar (JNum (num_value a)) # ts)) (idle_char c)
          else None)"

definition lfinish :: "lstate \<Rightarrow> token list option" where
  "lfinish st =
     (case st of
        LIdle \<Rightarrow> Some []
      | LNum ph a \<Rightarrow> (if accepting ph then Some [TScalar (JNum (num_value a))] else None)
      | _ \<Rightarrow> None)"

fun lex_run :: "lstate \<Rightarrow> jsstring \<Rightarrow> token list option" where
  "lex_run st [] = lfinish st"
| "lex_run st (c # cs) =
     (case lstep st c of
        None \<Rightarrow> None
      | Some (st', ts) \<Rightarrow> map_option (\<lambda>r. ts @ r) (lex_run st' cs))"

text \<open>
  The parser runs over the tokens with an explicit stack of the open containers, each
  with what it has collected so far (in reverse).
\<close>

datatype frame =
    FArr "jsval list"
  | FObj "(jsstring \<times> jsval) list" "jsstring option"

datatype pmode =
    PValue
  | PFirstElem
  | PFirstKey
  | PKey
  | PColon
  | PAfter
  | PEnd jsval

fun deliver :: "jsval \<Rightarrow> frame list \<Rightarrow> (pmode \<times> frame list) option" where
  "deliver v [] = Some (PEnd v, [])"
| "deliver v (FArr xs # fs) = Some (PAfter, FArr (v # xs) # fs)"
| "deliver v (FObj ms (Some k) # fs) = Some (PAfter, FObj ((k, v) # ms) None # fs)"
| "deliver v (FObj ms None # fs) = None"

fun value_start :: "token \<Rightarrow> frame list \<Rightarrow> (pmode \<times> frame list) option" where
  "value_start (TScalar v) fs = deliver v fs"
| "value_start TLBracket fs = Some (PFirstElem, FArr [] # fs)"
| "value_start TLBrace fs = Some (PFirstKey, FObj [] None # fs)"
| "value_start _ fs = None"

fun close_array :: "frame list \<Rightarrow> (pmode \<times> frame list) option" where
  "close_array (FArr xs # fs) = deliver (JArr (rev xs)) fs"
| "close_array _ = None"

fun close_object :: "frame list \<Rightarrow> (pmode \<times> frame list) option" where
  "close_object (FObj ms None # fs) = deliver (JObj (rev ms)) fs"
| "close_object _ = None"

fun take_key :: "token \<Rightarrow> frame list \<Rightarrow> (pmode \<times> frame list) option" where
  "take_key (TScalar (JStr k)) (FObj ms None # fs) = Some (PColon, FObj ms (Some k) # fs)"
| "take_key _ _ = None"

fun pstep :: "pmode \<Rightarrow> frame list \<Rightarrow> token \<Rightarrow> (pmode \<times> frame list) option" where
  "pstep PValue fs t = value_start t fs"
| "pstep PFirstElem fs t = (case t of TRBracket \<Rightarrow> close_array fs | _ \<Rightarrow> value_start t fs)"
| "pstep PFirstKey fs t = (case t of TRBrace \<Rightarrow> close_object fs | _ \<Rightarrow> take_key t fs)"
| "pstep PKey fs t = take_key t fs"
| "pstep PColon fs t = (case t of TColon \<Rightarrow> Some (PValue, fs) | _ \<Rightarrow> None)"
| "pstep PAfter fs t =
     (case fs of
        FArr xs # _ \<Rightarrow>
          (case t of TComma \<Rightarrow> Some (PValue, fs) | TRBracket \<Rightarrow> close_array fs | _ \<Rightarrow> None)
      | FObj ms None # _ \<Rightarrow>
          (case t of TComma \<Rightarrow> Some (PKey, fs) | TRBrace \<Rightarrow> close_object fs | _ \<Rightarrow> None)
      | _ \<Rightarrow> None)"
| "pstep (PEnd v) fs t = None"

fun parse_run :: "pmode \<Rightarrow> frame list \<Rightarrow> token list \<Rightarrow> jsval option" where
  "parse_run m fs [] = (case m of PEnd v \<Rightarrow> Some v | _ \<Rightarrow> None)"
| "parse_run m fs (t # ts) =
     (case pstep m fs t of
        None \<Rightarrow> None
      | Some (m', fs') \<Rightarrow> parse_run m' fs' ts)"

text \<open>\<open>JSON.parse\<close>: \<open>None\<close> is the thrown \<open>SyntaxError\<close>.\<close>

definition JSON_parse :: "jsstring \<Rightarrow> jsval option" where
  "JSON_parse text = (case lex_run LIdle text of None \<Rightarrow> None | Some ts \<Rightarrow> parse_run PValue [] ts)"

section \<open>Values at run time: properties, truthiness, conversions\<close>

text \<open>
  A property read \<open>v.k\<close> on a parsed value, for the property names this code reads
  (\<open>exp\<close>, \<open>message\<close>, \<open>success\<close>, \<open>data\<close>, \<open>token\<close>, \<open>refreshToken\<close>, \<open>user\<close>,
  \<open>first_time_login\<close>, \<open>organisation_id\<close>): none of them is defined on a built-in
  prototype, so only an object's own members can supply them. Reading a property of
  \<open>null\<close> or \<open>undefined\<close> throws; the callers test for that first.
\<close>

definition get_prop :: "jsval \<Rightarrow> jsstring \<Rightarrow> jsval" where
  "get_prop v k =
     (case v of
        JObj ms \<Rightarrow> (case map_of (rev ms) k of None \<Rightarrow> JUndefined | Some x \<Rightarrow> x)
      | _ \<Rightarrow> JUndefined)"

definition has_own :: "jsval \<Rightarrow> jsstring \<Rightarrow> bool" where
  "has_own v k = (case v of JObj ms \<Rightarrow> k \<in> set (map fst ms) | _ \<Rightarrow> False)"

fun truthy :: "jsval \<Rightarrow> bool" where
  "truthy JUndefined = False"
| "truthy JNull = False"
| "truthy (JBool b) = b"
| "truthy (JNum n) = (n \<noteq> Fin 0 \<and> n \<noteq> NaN)"
| "truthy (JStr s) = (s \<noteq> [])"
| "truthy (JArr xs) = True"
| "truthy (JObj ms) = True"

text \<open>
  Converting a value to a string fails with a \<open>TypeError\<close> exactly when an object
  reached by the conversion has an own member named \<open>toString\<close>: a parsed member is
  never callable, it hides \<open>Object.prototype.toString\<close>, and \<open>valueOf\<close> gives back the
  object itself.
\<close>

fun tostring_throws :: "jsval \<Rightarrow> bool" where
  "tostring_throws (JObj ms) = (js ''toString'' \<in> set (map fst ms))"
| "tostring_throws (JArr xs) = list_ex tostring_throws xs"
| "tostring_throws _ = False"

fun join_with :: "jsstring \<Rightarrow> jsstring list \<Rightarrow> jsstring" where
  "join_with sep [] = []"
| "join_with sep [x] = x"
| "join_with sep (x # y # zs) = x @ sep @ join_with sep (y # zs)"

text \<open>
  \<open>String(v)\<close> when it does not throw. How a number prints (\<open>Number::toString\<close>) is a
  parameter \<open>numstr\<close> of the model: every result holds for any such function.
\<close>

fun string_of :: "(jsnum \<Rightarrow> jsstring) \<Rightarrow> jsval \<Rightarrow> jsstring" where
  "string_of numstr JUndefined = js ''undefined''"
| "string_of numstr JNull = js ''null''"
| "string_of numstr (JBool b) = (if b then js ''true'' else js ''false'')"
| "string_of numstr (JNum n) = numstr n"
| "string_of numstr (JStr s) = s"
| "string_of numstr (JArr xs) =
     join_with (js '','')
       (map (\<lambda>x. if x = JNull \<or> x = JUndefined then [] else string_of numstr x) xs)"
| "string_of numstr (JObj ms) = js ''[object Object]''"

subsection \<open>Arithmetic and conversion to a number\<close>

text \<open>
  The product of two doubles is their exact product, rounded; \<open>x < y\<close> is exact, and
  false when either side is \<open>NaN\<close>.
\<close>

definition inf_times :: "jsnum \<Rightarrow> rat \<Rightarrow> jsnum" where
  "inf_times i a =
     (if a = 0 then NaN
      else if 0 < a then i
      else (if i = PosInf then NegInf else PosInf))"

definition num_mult :: "jsnum \<Rightarrow> jsnum \<Rightarrow> jsnum" where
  "num_mult x y =
     (case x of
        NaN \<Rightarrow> NaN
      | Fin a \<Rightarrow> (case y of NaN \<Rightarrow> NaN | Fin b \<Rightarrow> to_double (a * b) | _ \<Rightarrow> inf_times y a)
      | _ \<Rightarrow> (case y of NaN \<Rightarrow> NaN | Fin b \<Rightarrow> inf_times x b
                | _ \<Rightarrow> (if x = y then PosInf else NegInf)))"

definition num_less :: "jsnum \<Rightarrow> jsnum \<Rightarrow> bool" where
  "num_less x y =
     (case x of
        NaN \<Rightarrow> False
      | Fin a \<Rightarrow> (case y of Fin b \<Rightarrow> a < b | PosInf \<Rightarrow> True | _ \<Rightarrow> False)
      | NegInf \<Rightarrow> (case y of Fin b \<Rightarrow> True | PosInf \<Rightarrow> True | _ \<Rightarrow> False)
      | PosInf \<Rightarrow> False)"

text \<open>
  \<open>StringToNumber\<close> of ECMA-262: white space is trimmed, the empty string is \<open>0\<close>, then
  the text must be a signed decimal literal (also \<open>Infinity\<close>, \<open>5.\<close>, \<open>.5\<close>) or an unsigned
  binary, octal or hexadecimal integer literal; anything else is \<open>NaN\<close>. The value
  of the literal is rounded to a double.
\<close>

definition str_whitespace :: "nat \<Rightarrow> bool" where
  "str_whitespace c =
     (c = 9 \<or> c = 10 \<or> c = 11 \<or> c = 12 \<or> c = 13 \<or> c = 32 \<or> c = 160 \<or> c = 5760
      \<or> (8192 \<le> c \<and> c \<le> 8202) \<or> c = 8232 \<or> c = 8233 \<or> c = 8239 \<or> c = 8287
      \<or> c = 12288 \<or> c = 65279)"

definition trim :: "jsstring \<Rightarrow> jsstring" where
  "trim s = rev (dropWhile str_whitespace (rev (dropWhile str_whitespace s)))"

definition digits_value :: "nat \<Rightarrow> nat list \<Rightarrow> nat" where
  "digits_value base ds = foldl (\<lambda>a d. a * base + d) 0 ds"

definition exponent_part :: "jsstring \<Rightarrow> int option" where
  "exponent_part s =
     (case s of
        [] \<Rightarrow> Some 0
      | c # t \<Rightarrow>
          if c = ch CHR ''e'' \<or> c = ch CHR ''E'' then
            (let negative = (case t of [] \<Rightarrow> False | d # _ \<Rightarrow> d = ch CHR ''-'');
                 ds = (case t of [] \<Rightarrow> []
                       | d # u \<Rightarrow> if d = ch CHR ''+'' \<or> d = ch CHR ''-'' then u else t)
             in if ds \<noteq> [] \<and> list_all is_digit ds
                then Some ((if negative then - 1 else 1)
                           * int (digits_value 10 (map (\<lambda>d. d - 48) ds)))
                else None)
          else None)"

definition unsigned_decimal :: "jsstring \<Rightarrow> rat option" where
  "unsigned_decimal s =
     (let ip = takeWhile is_digit s;
          r1 = dropWhile is_digit s;
          fp = (case r1 of [] \<Rightarrow> []
                | c # t \<Rightarrow> if c = ch CHR ''.'' then takeWhile is_digit t else []);
          r2 = (case r1 of [] \<Rightarrow> []
                | c # t \<Rightarrow> if c = ch CHR ''.'' then dropWhile is_digit t else r1)
      in if ip = [] \<and> fp = [] then None
         else (case exponent_part r2 of
                 None \<Rightarrow> None
               | Some e \<Rightarrow>
                   Some (of_nat (digits_value 10 (map (\<lambda>d. d - 48) (ip @ fp)))
                         * pow10 (e - int (length fp)))))"

definition radix_literal :: "jsstring \<Rightarrow> rat option" where
  "radix_literal s =
     (case s of
        z # x # ds \<Rightarrow>
          if z = ch CHR ''0'' \<and> ds \<noteq> [] then
            (if x = ch CHR ''x'' \<or> x = ch CHR ''X'' then
               map_option (\<lambda>vs. of_nat (digits_value 16 vs)) (those (map hex_value ds))
             else if x = ch CHR ''o'' \<or> x = ch CHR ''O'' then
               (if list_all (\<lambda>d. 48 \<le> d \<and> d \<le> 55) ds
                then Some (of_nat (digits_value 8 (map (\<lambda>d. d - 48) ds))) else None)
             else if x = ch CHR ''b'' \<or> x = ch CHR ''B'' then
               (if list_all (\<lambda>d. d = 48 \<or> d = 49) ds
                then Some (of_nat (digits_value 2 (map (\<lambda>d. d - 48) ds))) else None)
             else None)
          else None
      | _ \<Rightarrow> None)"

definition StringToNumber :: "jsstring \<Rightarrow> jsnum" where
  "StringToNumber s =
     (let t = trim s in
      if t = [] then Fin 0
      else (case radix_literal t of
              Some q \<Rightarrow> to_double q
            | None \<Rightarrow>
                (let negative = (hd t = ch CHR ''-'');
                     body = (if hd t = ch CHR ''+'' \<or> hd t = ch CHR ''-'' then tl t else t)
                 in if body = js ''Infinity'' then (if negative then NegInf else PosInf)
                    else (case unsigned_decimal body of
                            None \<Rightarrow> NaN
                          | Some q \<Rightarrow> to_double (if negative then - q else q)))))"

text \<open>
  \<open>ToNumber\<close> of a value that converts without throwing. An array converts through its
  string: the empty array is \<open>0\<close>, a one-element array converts as its element printed,
  and the comma of a longer array makes it \<open>NaN\<close>.
\<close>

fun number_of :: "jsval \<Rightarrow> jsnum" where
  "number_of JUndefined = NaN"
| "number_of JNull = Fin 0"
| "number_of (JBool b) = Fin (if b then 1 else 0)"
| "number_of (JNum n) = n"
| "number_of (JStr s) = StringToNumber s"
| "number_of (JArr []) = Fin 0"
| "number_of (JArr [JUndefined]) = Fin 0"
| "number_of (JArr [JNull]) = Fin 0"
| "number_of (JArr [JBool b]) = NaN"
| "number_of (JArr [JNum n]) = n"
| "number_of (JArr [JStr s]) = StringToNumber s"
| "number_of (JArr [JArr ys]) = number_of (JArr ys)"
| "number_of (JArr [JObj ms]) = NaN"
| "number_of (JArr (x # y # zs)) = NaN"
| "number_of (JObj ms) = NaN"

text \<open>\<open>ToNumber\<close>: \<open>None\<close> is the thrown \<open>TypeError\<close>.\<close>

definition ToNumber :: "jsval \<Rightarrow> jsnum option" where
  "ToNumber v = (if tostring_throws v then None else Some (number_of v))"

section \<open>Exceptions and the environment of a call\<close>

text \<open>
  What a \<open>throw\<close> or a rejected promise carries: an \<open>Error\<close> made by this code with
  \<open>new Error(message)\<close> (its name is \<open>Error\<close>); an instance of \<open>Error\<close> raised by the
  platform, known by its name (\<open>TypeError\<close>, \<open>SyntaxError\<close>, the \<open>DOMException\<close>s
  \<open>AbortError\<close> and \<open>TimeoutError\<close>, ...), whose message text is up to the engine; or a
  value that is not an instance of \<open>Error\<close>.
\<close>

datatype thrown =
    Error jsstring
  | PlatformError jsstring
  | NonError

text \<open>
  What a call reads from its surroundings: how numbers print, the configured base URL,
  and the clock. Every call of \<open>isTokenExpired\<close> reads \<open>Date.now()\<close> afresh, and nothing
  makes two readings agree or the clock run forwards, so each call site has a reading
  of its own (milliseconds): \<open>now_upload\<close> is what the test of \<open>upload\<close> (line 249)
  reads, \<open>now\<close> what the first test of \<open>request\<close> (line 128) reads, and \<open>now_again\<close>
  what its second test (line 131) reads, when the first has failed.
\<close>

record env =
  numstr :: "jsnum \<Rightarrow> jsstring"
  baseURL :: jsstring
  now_upload :: int
  now :: int
  now_again :: int

definition ToString :: "env \<Rightarrow> jsval \<Rightarrow> thrown + jsstring" where
  "ToString e v =
     (if tostring_throws v then Inl (PlatformError (js ''TypeError''))
      else Inr (string_of (numstr e) v))"

text \<open>What \<open>throw new Error(v)\<close> raises: the conversion of \<open>v\<close> may itself throw.\<close>

definition new_Error :: "env \<Rightarrow> jsval \<Rightarrow> thrown" where
  "new_Error e v = (case ToString e v of Inl t \<Rightarrow> t | Inr s \<Rightarrow> Error s)"

text \<open>\<open>a || 'text'\<close>\<close>

definition or_text :: "jsval \<Rightarrow> jsstring \<Rightarrow> jsval" where
  "or_text a d = (if truthy a then a else JStr d)"

section \<open>TokenManager\<close>

text \<open>
  The four entries of \<open>localStorage\<close> that \<open>TokenManager\<close> owns, under its keys
  \<open>gdpilia-auth-token\<close>, \<open>gdpilia-refresh-token\<close>, \<open>gdpilia-first-time-login\<close> and
  \<open>gdpilia-user\<close>; \<open>None\<close> is an absent entry. The user entry holds text: either any
  text found there (\<open>Raw\<close>), or \<open>JSON.stringify(v)\<close> written by \<open>setUser\<close>
  (\<open>Stringified v\<close>), which is never empty and parses back to the properties of \<open>v\<close>;
  \<open>JSON.stringify(undefined)\<close> is \<open>undefined\<close>, stored as the text \<open>undefined\<close>.
  Failures of the storage itself (a full quota) are not modelled.
\<close>

datatype user_text = Raw jsstring | Stringified jsval

record storage =
  token_entry :: "jsstring option"
  refresh_entry :: "jsstring option"
  first_time_entry :: "jsstring option"
  user_entry :: "user_text option"

definition getToken :: "storage \<Rightarrow> jsstring option" where
  "getToken st = token_entry st"

definition setToken :: "env \<Rightarrow> storage \<Rightarrow> jsval \<Rightarrow> thrown + storage" where
  "setToken e st token =
     (case ToString e token of
        Inl t \<Rightarrow> Inl t
      | Inr s \<Rightarrow> Inr (st\<lparr>token_entry := Some s\<rparr>))"

definition getRefreshToken :: "storage \<Rightarrow> jsstring option" where
  "getRefreshToken st = refresh_entry st"

definition setRefreshToken :: "env \<Rightarrow> storage \<Rightarrow> jsval \<Rightarrow> thrown + storage" where
  "setRefreshToken e st token =
     (case ToString e token of
        Inl t \<Rightarrow> Inl t
      | Inr s \<Rightarrow> Inr (st\<lparr>refresh_entry := Some s\<rparr>))"

definition getFirstTimeLogin :: "storage \<Rightarrow> bool" where
  "getFirstTimeLogin st = (first_time_entry st = Some (js ''1''))"

definition setFirstTimeLogin :: "storage \<Rightarrow> bool \<Rightarrow> storage" where
  "setFirstTimeLogin st isFirstTime =
     st\<lparr>first_time_entry := Some (if isFirstTime then js ''1'' else js ''0'')\<rparr>"

text \<open>\<open>getUser\<close>: \<open>user ? JSON.parse(user) : null\<close>, with \<open>JNull\<close> for \<open>null\<close>.\<close>

definition getUser :: "storage \<Rightarrow> thrown + jsval" where
  "getUser st =
     (case user_entry st of
        None \<Rightarrow> Inr JNull
      | Some (Stringified v) \<Rightarrow> Inr v
      | Some (Raw s) \<Rightarrow>
          if s = [] then Inr JNull
          else (case JSON_parse s of
                  None \<Rightarrow> Inl (PlatformError (js ''SyntaxError''))
                | Some v \<Rightarrow> Inr v))"

definition setUser :: "storage \<Rightarrow> jsval \<Rightarrow> storage" where
  "setUser st user =
     st\<lparr>user_entry :=
          Some (if user = JUndefined then Raw (js ''undefined'') else Stringified user)\<rparr>"

definition clearTokens :: "storage \<Rightarrow> storage" where
  "clearTokens st =
     st\<lparr>token_entry := None, refresh_entry := None, first_time_entry := None,
        user_entry := None\<rparr>"

text \<open>
  \<open>isTokenExpired\<close>: every exception of the \<open>try\<close> block (a missing second segment
  makes \<open>atob\<close> decode the text \<open>undefined\<close>, which fails; \<open>atob\<close>; \<open>JSON.parse\<close>;
  reading \<open>exp\<close> of \<open>null\<close>; the conversion of \<open>exp\<close> to a number) is caught and gives
  \<open>True\<close>. Otherwise the result is \<open>payload.exp * 1000 < Date.now()\<close>.
\<close>

definition second_segment :: "jsstring \<Rightarrow> jsstring option" where
  "second_segment token = (case split_on (ch CHR ''.'') token of _ # seg # _ \<Rightarrow> Some seg | _ \<Rightarrow> None)"

text \<open>Line 75, \<open>JSON.parse(atob(token.split('.')[1]))\<close>: \<open>None\<close> when it throws.\<close>

definition decode_payload :: "jsstring \<Rightarrow> jsval option" where
  "decode_payload token =
     (case atob (case second_segment token of None \<Rightarrow> js ''undefined'' | Some seg \<Rightarrow> seg) of
        None \<Rightarrow> None
      | Some text \<Rightarrow> JSON_parse text)"

definition isTokenExpired :: "jsstring \<Rightarrow> int \<Rightarrow> bool" where
  "isTokenExpired token t =
     (case decode_payload token of
        None \<Rightarrow> True
      | Some payload \<Rightarrow>
          if payload = JNull \<or> payload = JUndefined then True
          else (case ToNumber (get_prop payload (js ''exp'')) of
                  None \<Rightarrow> True
                | Some n \<Rightarrow> num_less (num_mult n (Fin 1000)) (Fin (of_int t))))"

section \<open>HttpClient\<close>

text \<open>
  The options a caller passes (the request body plays no part in what follows and is
  left out), the request as handed to \<open>fetch\<close>, and what \<open>fetch\<close> answers: a rejection,
  or a response with its status, its \<open>content-type\<close> header (\<open>None\<close> when absent) and
  its body, which either arrives as text or fails while it is read. The answer is an
  input of the model: each result holds whatever the network does.
\<close>

record options =
  opt_method :: "jsstring option"
  opt_headers :: "jsstring \<rightharpoonup> jsstring"

record outgoing =
  out_url :: jsstring
  out_method :: jsstring
  out_headers :: "jsstring \<rightharpoonup> jsstring"

record response =
  status :: nat
  statusText :: jsstring
  content_type :: "jsstring option"
  body :: "thrown + jsstring"

datatype fetch_outcome = Rejected thrown | Responded response

definition DEFAULT_HEADERS :: "jsstring \<rightharpoonup> jsstring" where
  "DEFAULT_HEADERS =
     [js ''Content-Type'' \<mapsto> js ''application/json'', js ''Accept'' \<mapsto> js ''application/json'']"

definition response_ok :: "response \<Rightarrow> bool" where
  "response_ok r = (200 \<le> status r \<and> status r \<le> 299)"

text \<open>Lines 118-143 of \<open>request\<close>: the headers, and the clearing of an expired session.\<close>

definition request_prologue :: "env \<Rightarrow> storage \<Rightarrow> jsstring \<Rightarrow> options \<Rightarrow> storage \<times> outgoing" where
  "request_prologue e st endpoint opts =
     (let token = getToken st;
          headers = DEFAULT_HEADERS ++ opt_headers opts;
          send = (\<lambda>h. \<lparr>out_url = baseURL e @ endpoint,
                       out_method = (case opt_method opts of None \<Rightarrow> js ''GET'' | Some m \<Rightarrow> m),
                       out_headers = h\<rparr>)
      in case token of
           None \<Rightarrow> (st, send headers)
         | Some t \<Rightarrow>
             if t \<noteq> [] \<and> \<not> isTokenExpired t (now e) then
               (st, send (headers(js ''Authorization'' \<mapsto> js ''Bearer '' @ t)))
             else if t \<noteq> [] \<and> isTokenExpired t (now_again e) then
               (clearTokens st, send headers)
             else (st, send headers))"

text \<open>Lines 155-166: the body as JSON, or the minimal envelope for any other content.\<close>

definition is_json :: "response \<Rightarrow> bool" where
  "is_json r =
     (case content_type r of
        None \<Rightarrow> False
      | Some ct \<Rightarrow> ct \<noteq> [] \<and> str_includes ct (js ''application/json''))"

definition read_data :: "response \<Rightarrow> thrown + jsval" where
  "read_data r =
     (if is_json r
      then (case body r of
              Inl t \<Rightarrow> Inl t
            | Inr text \<Rightarrow>
                (case JSON_parse text of
                   None \<Rightarrow> Inl (PlatformError (js ''SyntaxError''))
                 | Some v \<Rightarrow> Inr v))
      else Inr (JObj [(js ''success'', JBool (response_ok r)),
                      (js ''message'',
                       JStr (if response_ok r then js ''Success'' else js ''Request failed''))]))"

text \<open>
  \<open>data.hasOwnProperty('success')\<close>: a \<open>TypeError\<close> on \<open>null\<close>, and on an object whose
  own member \<open>hasOwnProperty\<close> hides the method.
\<close>

definition hasOwnProperty_success :: "jsval \<Rightarrow> thrown + bool" where
  "hasOwnProperty_success data =
     (if data = JNull \<or> data = JUndefined \<or> has_own data (js ''hasOwnProperty'')
      then Inl (PlatformError (js ''TypeError''))
      else Inr (has_own data (js ''success'')))"

text \<open>Lines 151-190: the \<open>try\<close> block once \<open>fetch\<close> has answered with a response.\<close>

definition after_fetch :: "env \<Rightarrow> storage \<Rightarrow> response \<Rightarrow> storage \<times> (thrown + jsval)" where
  "after_fetch e st r =
     (case read_data r of
        Inl t \<Rightarrow> (st, Inl t)
      | Inr data \<Rightarrow>
          if status r = 401 then (clearTokens st, Inl (Error (js ''Authentication required'')))
          else if \<not> response_ok r then
            (if data = JNull \<or> data = JUndefined then (st, Inl (PlatformError (js ''TypeError'')))
             else (st, Inl (new_Error e
                     (or_text (get_prop data (js ''message''))
                        (js ''HTTP '' @ nat_to_string (status r) @ js '': '' @ statusText r)))))
          else (case hasOwnProperty_success data of
                  Inl t \<Rightarrow> (st, Inl t)
                | Inr False \<Rightarrow> (st, Inr (JObj [(js ''success'', JBool True), (js ''data'', data)]))
                | Inr True \<Rightarrow> (st, Inr data)))"

text \<open>Lines 191-202: the \<open>catch\<close> block.\<close>

definition on_catch :: "thrown \<Rightarrow> thrown" where
  "on_catch t =
     (case t of
        Error m \<Rightarrow> Error m
      | PlatformError name \<Rightarrow>
          if name = js ''AbortError'' then Error (js ''Request timeout'') else PlatformError name
      | NonError \<Rightarrow> Error (js ''Network error occurred''))"

text \<open>Lines 148-202: \<open>fetch\<close>, the \<open>try\<close> block and the \<open>catch\<close> block.\<close>

definition request_try :: "env \<Rightarrow> storage \<Rightarrow> fetch_outcome \<Rightarrow> storage \<times> (thrown + jsval)" where
  "request_try e st answer =
     (case (case answer of
              Rejected t \<Rightarrow> (st, Inl t)
            | Responded r \<Rightarrow> after_fetch e st r) of
        (st', Inl t) \<Rightarrow> (st', Inl (on_catch t))
      | (st', Inr v) \<Rightarrow> (st', Inr v))"

definition request ::
  "env \<Rightarrow> storage \<Rightarrow> jsstring \<Rightarrow> options \<Rightarrow> fetch_outcome \<Rightarrow> storage \<times> outgoing \<times> (thrown + jsval)" where
  "request e st endpoint opts answer =
     (case request_prologue e st endpoint opts of
        (st1, out) \<Rightarrow>
          (case request_try e st1 answer of
             (st2, r) \<Rightarrow> (st2, out, r)))"

text \<open>
  The public methods. \<open>get\<close> takes the query string that \<open>URLSearchParams\<close> printed, when
  parameters were given.
\<close>

definition get_request ::
  "env \<Rightarrow> storage \<Rightarrow> jsstring \<Rightarrow> jsstring option \<Rightarrow> fetch_outcome
     \<Rightarrow> storage \<times> outgoing \<times> (thrown + jsval)" where
  "get_request e st endpoint params answer =
     request e st (case params of None \<Rightarrow> endpoint | Some q \<Rightarrow> endpoint @ js ''?'' @ q)
       \<lparr>opt_method = Some (js ''GET''), opt_headers = Map.empty\<rparr> answer"

definition post ::
  "env \<Rightarrow> storage \<Rightarrow> jsstring \<Rightarrow> fetch_outcome \<Rightarrow> storage \<times> outgoing \<times> (thrown + jsval)" where
  "post e st endpoint answer =
     request e st endpoint \<lparr>opt_method = Some (js ''POST''), opt_headers = Map.empty\<rparr> answer"





text \<open>Every way a request reaches the private \<open>request\<close>.\<close>

datatype http_call =
    Get jsstring "jsstring option"
  | Post jsstring
  | Put jsstring
  | Patch jsstring
  | Delete jsstring
  | Upload jsstring

fun is_upload :: "http_call \<Rightarrow> bool" where
  "is_upload (Upload endpoint) = True"
| "is_upload _ = False"


section \<open>AuthService\<close>

text \<open>
  Each method takes the storage and the network's answer to its one request, and gives
  the storage afterwards with either the exception its promise rejects with or the value
  it resolves to.
\<close>

text \<open>\<open>login\<close>, lines 77-118: the \<open>try\<close> block after the awaited \<open>post\<close>.\<close>

definition login_try :: "env \<Rightarrow> storage \<Rightarrow> jsval \<Rightarrow> storage \<times> (thrown + jsval)" where
  "login_try e st response =
     (if truthy (get_prop response (js ''success'')) \<and> truthy (get_prop response (js ''data''))
      then
        (let data = get_prop response (js ''data'');
             token = get_prop data (js ''token'');
             refreshToken = get_prop data (js ''refreshToken'');
             user = get_prop data (js ''user'');
             first_time_login = get_prop data (js ''first_time_login'')
         in if \<not> truthy token then
              (st, Inl (Error (js ''No authentication token received from server'')))
            else if \<not> truthy user then
              (st, Inl (Error (js ''No user data received from server'')))
            else
              (case setToken e st token of
                 Inl t \<Rightarrow> (st, Inl t)
               | Inr st1 \<Rightarrow>
                   (case (if truthy refreshToken then setRefreshToken e st1 refreshToken
                          else Inr st1) of
                      Inl t \<Rightarrow> (st1, Inl t)
                    | Inr st2 \<Rightarrow>
                        (let st3 = setFirstTimeLogin st2 (first_time_login = JNum (Fin 1));
                             st4 = setUser st3 user;
                             storedToken = getToken st4
                         in case getUser st4 of
                              Inl t \<Rightarrow> (st4, Inl t)
                            | Inr storedUser \<Rightarrow>
                                if storedToken = None \<or> storedToken = Some [] then
                                  (st4, Inl (Error (js ''Failed to store authentication token'')))
                                else (st4, Inr data)))))
      else (st, Inl (new_Error e (or_text (get_prop response (js ''message'')) (js ''Login failed'')))))"

definition login :: "env \<Rightarrow> storage \<Rightarrow> fetch_outcome \<Rightarrow> storage \<times> (thrown + jsval)" where
  "login e st answer =
     (case post e st (js ''/login'') answer of
        (st1, out, r) \<Rightarrow>
          (case (case r of Inl t \<Rightarrow> (st1, Inl t) | Inr response \<Rightarrow> login_try e st1 response) of
             (st2, Inl t) \<Rightarrow> (clearTokens st2, Inl t)
           | (st2, Inr v) \<Rightarrow> (st2, Inr v)))"

text \<open>\<open>register\<close>, lines 148-184: as \<open>login\<close>, without the check of the stored token.\<close>

definition register_try :: "env \<Rightarrow> storage \<Rightarrow> jsval \<Rightarrow> storage \<times> (thrown + jsval)" where
  "register_try e st response =
     (if truthy (get_prop response (js ''success'')) \<and> truthy (get_prop response (js ''data''))
      then
        (let data = get_prop response (js ''data'');
             token = get_prop data (js ''token'');
             refreshToken = get_prop data (js ''refreshToken'');
             user = get_prop data (js ''user'');
             first_time_login = get_prop data (js ''first_time_login'')
         in if \<not> truthy token then
              (st, Inl (Error (js ''No authentication token received from server'')))
            else if \<not> truthy user then
              (st, Inl (Error (js ''No user data received from server'')))
            else
              (case setToken e st token of
                 Inl t \<Rightarrow> (st, Inl t)
               | Inr st1 \<Rightarrow>
                   (case (if truthy refreshToken then setRefreshToken e st1 refreshToken
                          else Inr st1) of
                      Inl t \<Rightarrow> (st1, Inl t)
                    | Inr st2 \<Rightarrow>
                        (let st3 = setFirstTimeLogin st2 (first_time_login = JNum (Fin 1));
                             st4 = setUser st3 user
                         in case getUser st4 of
                              Inl t \<Rightarrow> (st4, Inl t)
                            | Inr storedUser \<Rightarrow> (st4, Inr data)))))
      else (st, Inl (new_Error e
                       (or_text (get_prop response (js ''message'')) (js ''Registration failed'')))))"

definition register :: "env \<Rightarrow> storage \<Rightarrow> fetch_outcome \<Rightarrow> storage \<times> (thrown + jsval)" where
  "register e st answer =
     (case post e st (js ''/register'') answer of
        (st1, out, r) \<Rightarrow>
          (case (case r of Inl t \<Rightarrow> (st1, Inl t) | Inr response \<Rightarrow> register_try e st1 response) of
             (st2, Inl t) \<Rightarrow> (clearTokens st2, Inl t)
           | (st2, Inr v) \<Rightarrow> (st2, Inr v)))"

text \<open>
  \<open>logout\<close>: the \<open>catch\<close> swallows whatever the request throws, and \<open>finally\<close> clears.
\<close>

definition logout :: "env \<Rightarrow> storage \<Rightarrow> fetch_outcome \<Rightarrow> storage \<times> (thrown + unit)" where
  "logout e st answer =
     (case post e st (js ''/logout'') answer of
        (st1, out, Inl t) \<Rightarrow> (clearTokens st1, Inr ())
      | (st1, out, Inr v) \<Rightarrow> (clearTokens st1, Inr ()))"

definition getStoredUser :: "storage \<Rightarrow> thrown + jsval" where
  "getStoredUser st = getUser st"

text \<open>
  \<open>getUserOrganization\<close>: \<open>JNull\<close> is the \<open>null\<close> it resolves to. The second component
  tells whether the request was sent.
\<close>

definition getUserOrganization ::
  "env \<Rightarrow> storage \<Rightarrow> fetch_outcome \<Rightarrow> storage \<times> bool \<times> (thrown + jsval)" where
  "getUserOrganization e st answer =
     (case getStoredUser st of
        Inl t \<Rightarrow> (st, False, Inr JNull)
      | Inr user \<Rightarrow>
          if \<not> truthy user \<or> \<not> truthy (get_prop user (js ''organisation_id'')) then
            (st, False, Inr JNull)
          else
            (case ToString e (get_prop user (js ''organisation_id'')) of
               Inl t \<Rightarrow> (st, False, Inr JNull)
             | Inr ident \<Rightarrow>
                 (case get_request e st (js ''/organisations/'' @ ident) None answer of
                    (st1, out, Inl t) \<Rightarrow> (st1, True, Inr JNull)
                  | (st1, out, Inr response) \<Rightarrow>
                      if truthy (get_prop response (js ''success''))
                         \<and> truthy (get_prop response (js ''data''))
                      then (st1, True, Inr (get_prop response (js ''data'')))
                      else (st1, True, Inr JNull))))"

text \<open>The session is gone from the storage: none of the four entries is left.\<close>

definition session_empty :: "storage \<Rightarrow> bool" where
  "session_empty st =
     (token_entry st = None \<and> refresh_entry st = None \<and> first_time_entry st = None
      \<and> user_entry st = None)"

section \<open>What the parser can produce\<close>

text \<open>
  The conditions under which the lexer and the parser never produce \<open>undefined\<close>: no
  scalar token carries it, no pending literal of the lexer, no finished value of the
  parser.
\<close>

definition scalar_ok :: "token \<Rightarrow> bool" where
  "scalar_ok t = (case t of TScalar v \<Rightarrow> v \<noteq> JUndefined | _ \<Rightarrow> True)"

definition lstate_ok :: "lstate \<Rightarrow> bool" where
  "lstate_ok st = (case st of LLit xs v \<Rightarrow> v \<noteq> JUndefined | _ \<Rightarrow> True)"

definition pmode_ok :: "pmode \<Rightarrow> bool" where
  "pmode_ok m = (case m of PEnd v \<Rightarrow> v \<noteq> JUndefined | _ \<Rightarrow> True)"

section \<open>Sessions, tokens and answers used as examples\<close>

text \<open>
  How the examples print a number: the decimal digits of an integer, which is what
  \<open>Number::toString\<close> gives for the integers below \<open>10^21\<close>; the examples print no other
  number.
\<close>

definition integer_text :: "jsnum \<Rightarrow> jsstring" where
  "integer_text n =
     (case n of
        NaN \<Rightarrow> js ''NaN''
      | PosInf \<Rightarrow> js ''Infinity''
      | NegInf \<Rightarrow> js ''-Infinity''
      | Fin q \<Rightarrow>
          if q < 0 then js ''-'' @ nat_to_string (nat \<lfloor>- q\<rfloor>) else nat_to_string (nat \<lfloor>q\<rfloor>))"

definition env0 :: env where
  "env0 = \<lparr>numstr = integer_text, baseURL = js ''http://127.0.0.1:8000/api'',
           now_upload = 1700000000000, now = 1700000000000, now_again = 1700000000000\<rparr>"



text \<open>
  What \<open>fetch\<close> answers when the signal of \<open>AbortSignal.timeout\<close> fires: it rejects with
  the signal's reason, a \<open>DOMException\<close> named \<open>TimeoutError\<close> (DOM standard,
  \<open>AbortSignal.timeout\<close>). An abort by \<open>AbortController.abort()\<close> or by the user agent
  has the reason \<open>AbortError\<close>.
\<close>

definition timed_out :: fetch_outcome where
  "timed_out = Rejected (PlatformError (js ''TimeoutError''))"

definition aborted :: fetch_outcome where
  "aborted = Rejected (PlatformError (js ''AbortError''))"

text \<open>A token whose payload is \<open>{"exp":1700000000}\<close>, and one expiring 100 seconds later.\<close>

definition token_1700000000 :: jsstring where
  "token_1700000000 = js ''h.eyJleHAiOjE3MDAwMDAwMDB9.s''"

definition token_1700000100 :: jsstring where
  "token_1700000100 = js ''h.eyJleHAiOjE3MDAwMDAxMDB9.s''"

text \<open>
  Tokens whose payloads are \<open>{"exp":1700000000.0009999}\<close> and
  \<open>{"exp":1699999999.9999999}\<close>.
\<close>

definition token_last_millisecond :: jsstring where
  "token_last_millisecond = js ''h.eyJleHAiOjE3MDAwMDAwMDAuMDAwOTk5OX0.s''"

definition token_rounded_literal :: jsstring where
  "token_rounded_literal = js ''h.eyJleHAiOjE2OTk5OTk5OTkuOTk5OTk5OX0.s''"

definition session_of :: "jsstring \<Rightarrow> storage" where
  "session_of token =
     \<lparr>token_entry = Some token, refresh_entry = Some (js ''r1''),
      first_time_entry = Some (js ''0''),
      user_entry = Some (Raw (js ''{\"id\":1,\"organisation_id\":7}''))\<rparr>"

definition anonymous :: storage where
  "anonymous = \<lparr>token_entry = None, refresh_entry = None, first_time_entry = None,
                 user_entry = None\<rparr>"

definition json_answer :: "nat \<Rightarrow> jsstring \<Rightarrow> jsstring \<Rightarrow> fetch_outcome" where
  "json_answer code reason text =
     Responded \<lparr>status = code, statusText = reason,
                content_type = Some (js ''application/json''), body = Inr text\<rparr>"

definition html_answer :: "nat \<Rightarrow> jsstring \<Rightarrow> fetch_outcome" where
  "html_answer code reason =
     Responded \<lparr>status = code, statusText = reason,
                content_type = Some (js ''text/html''), body = Inr (js ''<html></html>'')\<rparr>"

definition get_options :: options where
  "get_options = \<lparr>opt_method = Some (js ''GET''), opt_headers = Map.empty\<rparr>"

section \<open>Evaluation and basic facts\<close>

subsection \<open>Rounding to a double\<close>

lemma bit_length_pos: "0 < n \<Longrightarrow> 0 < bit_length n"
  by (subst bit_length.simps) simp

lemma bit_length_lower: "0 < n \<Longrightarrow> 2 ^ (bit_length n - 1) \<le> n"
proof (induction n rule: bit_length.induct)
  case (1 n)
  show ?case
  proof (cases "n div 2 = 0")
    case True
    with "1.prems" have "n = 1" by (simp add: div_eq_0_iff) 
    then show ?thesis by (simp add: bit_length.simps)
  next
    case False
    then have h: "0 < n div 2" by simp
    with "1.IH" "1.prems" have ih: "2 ^ (bit_length (n div 2) - 1) \<le> n div 2" by simp
    have b: "bit_length n = Suc (bit_length (n div 2))"
      using "1.prems" by (subst bit_length.simps) simp
    have "bit_length n - 1 = Suc (bit_length (n div 2) - 1)"
      using b bit_length_pos [OF h] by simp
    then have "(2::nat) ^ (bit_length n - 1) = 2 * 2 ^ (bit_length (n div 2) - 1)" by simp
    also have "\<dots> \<le> 2 * (n div 2)" using ih by simp
    also have "\<dots> \<le> n" by simp
    finally show ?thesis .
  qed
qed

lemma round_half_even_ge: "\<lfloor>r\<rfloor> \<le> round_half_even r"
  by (simp add: round_half_even_def Let_def)

lemma round_half_even_le: "round_half_even r \<le> \<lceil>r\<rceil>"
proof (cases "r = of_int \<lfloor>r\<rfloor>")
  case True
  then have "r - of_int \<lfloor>r\<rfloor> = 0" by simp
  then have "round_half_even r = \<lfloor>r\<rfloor>" by (simp add: round_half_even_def Let_def)
  then show ?thesis by (simp add: floor_le_ceiling)
next
  case False
  then have "\<lceil>r\<rceil> = \<lfloor>r\<rfloor> + 1"
    by (metis ceiling_altdef)
  then show ?thesis by (simp add: round_half_even_def Let_def)
qed

lemma pow2_pos: "0 < pow2 p"
  by (simp add: pow2_def)

lemma binade_small: "a < 1 \<Longrightarrow> binade a \<le> 0"
  by (simp add: binade_def)

lemma binade_lower: "1 \<le> a \<Longrightarrow> 2 ^ nat (binade a) \<le> a"
proof -
  assume a: "1 \<le> a"
  then have f: "1 \<le> \<lfloor>a\<rfloor>" by simp
  then have n: "0 < nat \<lfloor>a\<rfloor>" by simp
  have "nat (binade a) = bit_length (nat \<lfloor>a\<rfloor>) - 1"
    using a bit_length_pos [OF n] by (simp add: binade_def)
  with bit_length_lower [OF n] have "2 ^ nat (binade a) \<le> nat \<lfloor>a\<rfloor>" by simp
  then have "(of_nat (2 ^ nat (binade a)) :: rat) \<le> of_nat (nat \<lfloor>a\<rfloor>)"
    by (rule of_nat_mono)
  also have "\<dots> = of_int \<lfloor>a\<rfloor>" using f by simp
  also have "\<dots> \<le> a" by simp
  finally show ?thesis by simp
qed

text \<open>An integer is a multiple of every quantum that is at most one.\<close>

lemma integer_over_quantum:
  assumes "p \<le> 0"
  shows "of_int k / pow2 p = of_int (k * 2 ^ nat (- p))"
  using assms by (simp add: pow2_def)

lemma to_double_pos_ge:
  assumes "0 < a" and "of_int k \<le> a" and "k \<le> 2 ^ 53"
  shows "to_double_pos a = PosInf \<or> (\<exists>y. to_double_pos a = Fin y \<and> of_int k \<le> y)"
proof -
  define p where "p = max (binade a - 52) (- 1074)"
  define m where "m = round_half_even (a / pow2 p)"
  have y: "to_double_pos a = PosInf \<or> to_double_pos a = Fin (of_int m * pow2 p)"
    by (simp add: to_double_pos_def Let_def p_def m_def)
  have "of_int k \<le> of_int m * pow2 p"
  proof (cases "p \<le> 0")
    case True
    have "of_int (k * 2 ^ nat (- p)) = of_int k / pow2 p"
      by (simp add: integer_over_quantum [OF True])
    also have "\<dots> \<le> a / pow2 p"
      using assms(2) pow2_pos [of p] by (simp add: divide_right_mono)
    finally have "k * 2 ^ nat (- p) \<le> \<lfloor>a / pow2 p\<rfloor>" by (simp add: le_floor_iff)
    with round_half_even_ge [of "a / pow2 p"] have "k * 2 ^ nat (- p) \<le> m"
      by (simp add: m_def)
    then have "(of_int (k * 2 ^ nat (- p)) :: rat) \<le> of_int m" by (simp only: of_int_le_iff)
    then have A: "of_int (k * 2 ^ nat (- p)) * pow2 p \<le> of_int m * pow2 p"
      using pow2_pos [of p] by (simp only: mult_right_mono less_imp_le)
    have B: "of_int (k * 2 ^ nat (- p)) * pow2 p = (of_int k :: rat)"
      using True by (simp add: pow2_def)
    show ?thesis using A unfolding B .
  next
    case False
    then have pp: "0 < p" by simp
    then have b: "52 < binade a" and pe: "p = binade a - 52" by (auto simp: p_def)
    then have a1: "1 \<le> a" using binade_small [of a] by (cases "1 \<le> a") auto
    have n: "nat (binade a) = 52 + nat p" using b pe by simp
    have "(2::rat) ^ 52 * 2 ^ nat p = 2 ^ nat (binade a)" by (simp add: n power_add)
    also have "\<dots> \<le> a" by (rule binade_lower [OF a1])
    finally have le: "(2::rat) ^ 52 * 2 ^ nat p \<le> a" .
    have q: "pow2 p = 2 ^ nat p" using pp by (simp add: pow2_def)
    have "(2::rat) ^ 52 \<le> a / pow2 p"
      using le by (simp add: q pos_le_divide_eq)
    then have "(of_int (2 ^ 52) :: rat) \<le> a / pow2 p" by simp
    then have "2 ^ 52 \<le> \<lfloor>a / pow2 p\<rfloor>" by (simp only: le_floor_iff)
    also have "\<dots> \<le> m" unfolding m_def by (rule round_half_even_ge)
    finally have "(of_int (2 ^ 52) :: rat) \<le> of_int m" by (simp only: of_int_le_iff)
    then have "(2::rat) ^ 52 * pow2 p \<le> of_int m * pow2 p"
      using pow2_pos [of p] by (simp add: mult_right_mono)
    moreover have "(2::rat) ^ 53 \<le> 2 ^ 52 * pow2 p"
    proof -
      have "(2::rat) ^ 1 \<le> 2 ^ nat p" using pp by (intro power_increasing) auto
      then show ?thesis by (simp add: q)
    qed
    moreover have "(of_int k :: rat) \<le> 2 ^ 53"
      using assms(3) by (metis of_int_le_iff of_int_numeral of_int_power)
    ultimately show ?thesis by linarith
  qed
  with y show ?thesis by auto
qed

lemma to_double_pos_le:
  assumes "0 < a" and "a \<le> of_int k" and "k < 2 ^ 53"
  shows "\<exists>y. to_double_pos a = Fin y \<and> y \<le> of_int k"
proof -
  define p where "p = max (binade a - 52) (- 1074)"
  define m where "m = round_half_even (a / pow2 p)"
  have k53: "(of_int k :: rat) < 2 ^ 53"
    using assms(3) by (metis of_int_less_iff of_int_numeral of_int_power)
  have p0: "p \<le> 0"
  proof (cases "1 \<le> a")
    case True
    have "(2::rat) ^ nat (binade a) \<le> a" by (rule binade_lower [OF True])
    also have "\<dots> < 2 ^ 53" using assms(2) k53 by simp
    finally have lt: "(2::rat) ^ nat (binade a) < 2 ^ 53" .
    have "nat (binade a) < 53" by (rule power_less_imp_less_exp [OF _ lt]) simp
    then show ?thesis by (simp add: p_def)
  next
    case False
    then show ?thesis using binade_small [of a] by (simp add: p_def)
  qed
  have "a / pow2 p \<le> of_int k / pow2 p"
    using assms(2) pow2_pos [of p] by (simp add: divide_right_mono)
  also have "\<dots> = of_int (k * 2 ^ nat (- p))"
    by (simp add: integer_over_quantum [OF p0])
  finally have "\<lceil>a / pow2 p\<rceil> \<le> k * 2 ^ nat (- p)" by (simp only: ceiling_le_iff)
  with round_half_even_le [of "a / pow2 p"] have "m \<le> k * 2 ^ nat (- p)" by (simp add: m_def)
  then have "(of_int m :: rat) \<le> of_int (k * 2 ^ nat (- p))" by (simp only: of_int_le_iff)
  then have A: "of_int m * pow2 p \<le> of_int (k * 2 ^ nat (- p)) * pow2 p"
    using pow2_pos [of p] by (simp only: mult_right_mono less_imp_le)
  have B: "of_int (k * 2 ^ nat (- p)) * pow2 p = (of_int k :: rat)"
    using p0 by (simp add: pow2_def)
  have le: "of_int m * pow2 p \<le> of_int k" using A unfolding B .
  have "(2::rat) ^ 53 \<le> 2 ^ 1024" by (intro power_increasing) auto
  with le k53 have "\<not> (2::rat) ^ 1024 \<le> of_int m * pow2 p" by linarith
  then have "to_double_pos a = Fin (of_int m * pow2 p)"
    by (simp add: to_double_pos_def Let_def p_def m_def)
  with le show ?thesis by simp
qed

lemma to_double_pos_nonneg:
  assumes "0 < a"
  shows "to_double_pos a = PosInf \<or> (\<exists>y. to_double_pos a = Fin y \<and> 0 \<le> y)"
  using to_double_pos_ge [of a 0] assms by simp

text \<open>Rounding never carries a number across an integer of magnitude up to \<open>2^53\<close>.\<close>

lemma to_double_ge:
  assumes "of_int k \<le> q" and "\<bar>k\<bar> < 2 ^ 53"
  shows "\<not> num_less (to_double q) (Fin (of_int k))"
proof -
  consider "q = 0" | "0 < q" | "q < 0" by linarith
  then show ?thesis
  proof cases
    case 1
    with assms show ?thesis by (simp add: to_double_def num_less_def)
  next
    case 2
    moreover have "k \<le> 2 ^ 53" using assms(2) by simp
    ultimately have "to_double_pos q = PosInf
        \<or> (\<exists>y. to_double_pos q = Fin y \<and> of_int k \<le> y)"
      using to_double_pos_ge [of q k] assms(1) by blast
    with 2 show ?thesis by (auto simp: to_double_def num_less_def)
  next
    case 3
    then have "0 < - q" and "- q \<le> of_int (- k)" using assms(1) by simp_all
    moreover have "- k < 2 ^ 53" using assms(2) by simp
    ultimately obtain y where "to_double_pos (- q) = Fin y" and "y \<le> of_int (- k)"
      using to_double_pos_le [of "- q" "- k"] by blast
    with 3 show ?thesis by (simp add: to_double_def negate_def num_less_def)
  qed
qed

lemma to_double_le:
  assumes "q \<le> of_int k" and "k < t" and "\<bar>k\<bar> < 2 ^ 53"
  shows "num_less (to_double q) (Fin (of_int t))"
proof -
  have kt: "(of_int k :: rat) < of_int t" using assms(2) by simp
  consider "q = 0" | "0 < q" | "q < 0" by linarith
  then show ?thesis
  proof cases
    case 1
    with assms(1) kt show ?thesis by (simp add: to_double_def num_less_def)
  next
    case 2
    moreover have "k < 2 ^ 53" using assms(3) by simp
    ultimately obtain y where "to_double_pos q = Fin y" and "y \<le> of_int k"
      using to_double_pos_le [of q k] assms(1) by blast
    with 2 kt show ?thesis by (simp add: to_double_def num_less_def)
  next
    case 3
    then have pos: "0 < - q" by simp
    show ?thesis
    proof (cases "0 \<le> k")
      case True
      with to_double_pos_nonneg [OF pos] 3 kt show ?thesis
        by (auto simp: to_double_def negate_def num_less_def)
    next
      case False
      then have "of_int (- k) \<le> - q" using assms(1) by simp
      moreover have "- k \<le> 2 ^ 53" using assms(3) by simp
      ultimately have "to_double_pos (- q) = PosInf
          \<or> (\<exists>y. to_double_pos (- q) = Fin y \<and> of_int (- k) \<le> y)"
        using to_double_pos_ge [OF pos] by blast
      with 3 kt show ?thesis
        by (auto simp: to_double_def negate_def num_less_def)
    qed
  qed
qed

text \<open>An integer of magnitude below \<open>2^53\<close> is a double.\<close>

lemma to_double_pos_int:
  assumes "0 < k" and "k < 2 ^ 53"
  shows "to_double_pos (of_int k) = Fin (of_int k)"
proof -
  from assms obtain y where y: "to_double_pos (of_int k) = Fin y" and le: "y \<le> of_int k"
    using to_double_pos_le [of "of_int k" k] by auto
  from assms have "to_double_pos (of_int k) = PosInf
      \<or> (\<exists>z. to_double_pos (of_int k) = Fin z \<and> of_int k \<le> z)"
    using to_double_pos_ge [of "of_int k" k] by simp
  with y have "of_int k \<le> y" by simp
  with le y show ?thesis by simp
qed

lemma to_double_int:
  assumes "\<bar>k\<bar> < 2 ^ 53"
  shows "to_double (of_int k) = Fin (of_int k)"
proof -
  consider "k = 0" | "0 < k" | "k < 0" by linarith
  then show ?thesis
  proof cases
    case 1
    then show ?thesis by (simp add: to_double_def)
  next
    case 2
    with assms to_double_pos_int [of k] show ?thesis by (simp add: to_double_def)
  next
    case 3
    with assms to_double_pos_int [of "- k"] show ?thesis
      by (simp add: to_double_def negate_def)
  qed
qed

lemma to_double_zero: "to_double 0 = Fin 0"
  by (simp add: to_double_def)

lemma to_double_one: "to_double 1 = Fin 1"
  using to_double_int [of 1] by simp

lemma to_double_numeral:
  "numeral k < (2::int) ^ 53 \<Longrightarrow> to_double (numeral k) = Fin (numeral k)"
  using to_double_int [of "numeral k"] by simp

lemma to_double_neg_numeral:
  "numeral k < (2::int) ^ 53 \<Longrightarrow> to_double (- numeral k) = Fin (- numeral k)"
  using to_double_int [of "- numeral k"] by simp

subsection \<open>Evaluation\<close>

lemma bit_length_0: "bit_length 0 = 0"
  by (simp add: bit_length.simps)

lemma bit_length_Suc_0: "bit_length (Suc 0) = Suc 0"
  by (simp add: bit_length.simps [of "Suc 0"] bit_length.simps [of 0])

lemma bit_length_numeral: "bit_length (numeral k) = Suc (bit_length (numeral k div 2))"
  by (subst bit_length.simps) simp

lemma floor_fraction: "\<lfloor>(numeral a :: rat) / numeral b\<rfloor> = numeral a div numeral b"
  by (metis floor_divide_of_int_eq of_int_numeral)

lemma ceiling_fraction:
  "\<lceil>(numeral a :: rat) / numeral b\<rceil> = - ((- numeral a) div numeral b)"
  by (metis ceiling_divide_eq_div of_int_numeral)

lemmas dbl_defs = to_double_def to_double_pos_def binade_def round_half_even_def pow2_def
  negate_def bit_length_0 bit_length_Suc_0 bit_length_numeral floor_fraction
  ceiling_fraction Let_def

lemmas int_double = to_double_zero to_double_one to_double_numeral to_double_neg_numeral

lemmas lex_defs = js_def ch_def idle_char_def num_char_def is_digit_def accepting_def
  lfinish_def num_value_def num_exact_def pow10_def num0_def escape_char_def hex_value_def
  int_double

lemmas b64_defs = atob_def strip_padding_def ascii_whitespace_def b64_value_def

lemmas tok_defs = decode_payload_def second_segment_def JSON_parse_def

lemmas example_defs = env0_def token_1700000000_def token_1700000100_def session_of_def
  anonymous_def json_answer_def html_answer_def

lemmas cmp_defs = isTokenExpired_def get_prop_def ToNumber_def num_less_def num_mult_def
  int_double

subsection \<open>Storage, requests and the example tokens\<close>

lemma session_empty_clearTokens [simp]: "session_empty (clearTokens st)"
  by (simp add: session_empty_def clearTokens_def)

lemma after_fetch_storage:
  "fst (after_fetch e st r) = st \<or> fst (after_fetch e st r) = clearTokens st"
  by (auto simp: after_fetch_def split: sum.splits bool.splits)

lemma request_try_storage:
  "fst (request_try e st answer) = st \<or> fst (request_try e st answer) = clearTokens st"
proof (cases answer)
  case (Rejected t)
  then show ?thesis by (simp add: request_try_def)
next
  case (Responded r)
  with after_fetch_storage [of e st r] show ?thesis
    by (cases "after_fetch e st r") (auto simp: request_try_def split: sum.splits)
qed

lemma request_try_keeps_empty:
  "session_empty st \<Longrightarrow> session_empty (fst (request_try e st answer))"
  using request_try_storage [of e st answer] by auto

lemma request_parts:
  "request e st endpoint opts answer =
     (fst (request_try e (fst (request_prologue e st endpoint opts)) answer),
      snd (request_prologue e st endpoint opts),
      snd (request_try e (fst (request_prologue e st endpoint opts)) answer))"
  by (simp add: request_def split: prod.splits)

lemma prologue_storage:
  "fst (request_prologue e st endpoint opts) =
     (case getToken st of
        None \<Rightarrow> st
      | Some t \<Rightarrow>
          if t \<noteq> [] \<and> isTokenExpired t (now e) \<and> isTokenExpired t (now_again e)
          then clearTokens st else st)"
  by (simp add: request_prologue_def Let_def split: option.splits)

lemma prologue_headers:
  "out_headers (snd (request_prologue e st endpoint opts)) =
     (case getToken st of
        None \<Rightarrow> DEFAULT_HEADERS ++ opt_headers opts
      | Some t \<Rightarrow>
          if t \<noteq> [] \<and> \<not> isTokenExpired t (now e)
          then (DEFAULT_HEADERS ++ opt_headers opts)(js ''Authorization'' \<mapsto> js ''Bearer '' @ t)
          else DEFAULT_HEADERS ++ opt_headers opts)"
  by (simp add: request_prologue_def Let_def split: option.splits)

lemma default_headers_no_authorization [simp]:
  "DEFAULT_HEADERS (js ''Authorization'') = None"
  by (simp add: DEFAULT_HEADERS_def js_def)


lemma decode_1700000000:
  "decode_payload token_1700000000 = Some (JObj [(js ''exp'', JNum (Fin 1700000000))])"
  by (simp add: token_1700000000_def tok_defs b64_defs lex_defs)

lemma decode_1700000100:
  "decode_payload token_1700000100 = Some (JObj [(js ''exp'', JNum (Fin 1700000100))])"
  by (simp add: token_1700000100_def tok_defs b64_defs lex_defs)

lemma decode_empty_object: "decode_payload (js ''x.e30'') = Some (JObj [])"
  by (simp add: tok_defs b64_defs lex_defs)



lemma valid_1700000100: "\<not> isTokenExpired token_1700000100 1700000000000"
  by (simp add: isTokenExpired_def decode_1700000100 get_prop_def ToNumber_def num_less_def
      num_mult_def js_def int_double)


lemma try_rejected: "request_try e st (Rejected t) = (st, Inl (on_catch t))"
  by (simp add: request_try_def)

lemma try_responded:
  "request_try e st (Responded r) =
     (fst (after_fetch e st r),
      case snd (after_fetch e st r) of Inl t \<Rightarrow> Inl (on_catch t) | Inr v \<Rightarrow> Inr v)"
  by (cases "after_fetch e st r") (simp add: request_try_def split: sum.splits)

text \<open>The \<open>catch\<close> block of \<open>request\<close> changes only an \<open>AbortError\<close> and a non-error.\<close>

lemma on_catch_Error [simp]: "on_catch (Error m) = Error m"
  by (simp add: on_catch_def)

lemma on_catch_new_Error [simp]: "on_catch (new_Error e v) = new_Error e v"
  by (simp add: new_Error_def ToString_def on_catch_def js_def)

lemma on_catch_TypeError [simp]:
  "on_catch (PlatformError (js ''TypeError'')) = PlatformError (js ''TypeError'')"
  by (simp add: on_catch_def js_def)

lemma on_catch_SyntaxError [simp]:
  "on_catch (PlatformError (js ''SyntaxError'')) = PlatformError (js ''SyntaxError'')"
  by (simp add: on_catch_def js_def)

lemma on_catch_TimeoutError [simp]:
  "on_catch (PlatformError (js ''TimeoutError'')) = PlatformError (js ''TimeoutError'')"
  by (simp add: on_catch_def js_def)

lemma on_catch_AbortError [simp]:
  "on_catch (PlatformError (js ''AbortError'')) = Error (js ''Request timeout'')"
  by (simp add: on_catch_def)

text \<open>What a call settles with does not depend on the endpoint or the options.\<close>

lemma request_storage_any:
  "fst (request e st endpoint opts answer) = fst (request e st endpoint' opts' answer)"
  by (simp add: request_parts prologue_storage)

lemma request_result_any:
  "snd (snd (request e st endpoint opts answer))
     = snd (snd (request e st endpoint' opts' answer))"
  by (simp add: request_parts prologue_storage)

lemma new_Error_text [simp]: "new_Error e (JStr m) = Error m"
  by (simp add: new_Error_def ToString_def)

lemma get_prop_absent:
  "k \<notin> fst ` set ms \<Longrightarrow> get_prop (JObj ms) k = JUndefined"
  by (simp add: get_prop_def map_of_eq_None_iff [THEN iffD2])

lemma valid_session_prologue:
  "fst (request_prologue env0 (session_of token_1700000100) endpoint opts)
     = session_of token_1700000100"
  using valid_1700000100
  by (simp add: prologue_storage getToken_def session_of_def env0_def)

lemma anonymous_prologue:
  "fst (request_prologue e anonymous endpoint opts) = anonymous"
  by (simp add: prologue_storage getToken_def anonymous_def)

text \<open>
  A clock that does not run backwards never makes an expired token valid again: the
  tests of the token within one call agree.
\<close>

lemma num_less_mono:
  "num_less n (Fin (of_int t)) \<Longrightarrow> t \<le> t' \<Longrightarrow> num_less n (Fin (of_int t'))"
  by (cases n) (auto simp: num_less_def dest: less_le_trans [where z = "of_int t' :: rat"])

lemma expired_stays_expired:
  "isTokenExpired token t \<Longrightarrow> t \<le> t' \<Longrightarrow> isTokenExpired token t'"
  by (auto simp: isTokenExpired_def split: option.splits if_splits elim: num_less_mono)

subsection \<open>\<open>JSON.parse\<close> never gives \<open>undefined\<close>\<close>

lemma idle_char_ok:
  "idle_char c = Some (st, ts) \<Longrightarrow>
     list_all scalar_ok ts \<and> (case st of LLit xs v \<Rightarrow> v \<noteq> JUndefined | _ \<Rightarrow> True)"
  by (auto simp: idle_char_def scalar_ok_def split: if_splits)

lemma lstep_ok:
  "lstate_ok st \<Longrightarrow> lstep st c = Some (st', ts) \<Longrightarrow> list_all scalar_ok ts \<and> lstate_ok st'"
proof (cases st)
  case LIdle
  assume "lstep st c = Some (st', ts)"
  with LIdle idle_char_ok [of c st' ts] show ?thesis by (simp add: lstate_ok_def)
next
  case (LNum ph a)
  assume "lstep st c = Some (st', ts)"
  with LNum show ?thesis
    using idle_char_ok [of c]
    by (auto simp: lstate_ok_def scalar_ok_def split: option.splits if_splits prod.splits)
next
  case (LLit xs v)
  assume "lstate_ok st" "lstep st c = Some (st', ts)"
  with LLit show ?thesis
    by (cases xs) (auto simp: lstate_ok_def scalar_ok_def split: if_splits)
qed (auto simp: lstate_ok_def scalar_ok_def split: if_splits option.splits)

lemma lex_run_ok:
  "lstate_ok st \<Longrightarrow> lex_run st cs = Some ts \<Longrightarrow> list_all scalar_ok ts"
proof (induction cs arbitrary: st ts)
  case Nil
  then show ?case
    by (auto simp: lfinish_def scalar_ok_def split: lstate.splits if_splits)
next
  case (Cons c cs)
  then obtain st' ts1 ts2 where s: "lstep st c = Some (st', ts1)"
    and r: "lex_run st' cs = Some ts2" and t: "ts = ts1 @ ts2"
    by (auto split: option.splits)
  from lstep_ok [OF Cons.prems(1) s] Cons.IH [OF _ r] t show ?case by simp
qed

lemma deliver_ok: "v \<noteq> JUndefined \<Longrightarrow> deliver v fs = Some (m, fs') \<Longrightarrow> pmode_ok m"
  by (cases "(v, fs)" rule: deliver.cases) (auto simp: pmode_ok_def)

lemma value_start_ok: "scalar_ok t \<Longrightarrow> value_start t fs = Some (m, fs') \<Longrightarrow> pmode_ok m"
  by (cases "(t, fs)" rule: value_start.cases) (auto simp: pmode_ok_def scalar_ok_def dest: deliver_ok)

lemma deliver_array_ok: "deliver (JArr xs) fs = Some (m, fs') \<Longrightarrow> pmode_ok m"
  by (rule deliver_ok [of "JArr xs"]) simp_all

lemma deliver_object_ok: "deliver (JObj ms) fs = Some (m, fs') \<Longrightarrow> pmode_ok m"
  by (rule deliver_ok [of "JObj ms"]) simp_all

lemma close_array_ok: "close_array fs = Some (m, fs') \<Longrightarrow> pmode_ok m"
  by (cases fs rule: close_array.cases) (auto dest: deliver_array_ok)

lemma close_object_ok: "close_object fs = Some (m, fs') \<Longrightarrow> pmode_ok m"
  by (cases fs rule: close_object.cases) (auto dest: deliver_object_ok)

lemma take_key_ok: "take_key t fs = Some (m, fs') \<Longrightarrow> pmode_ok m"
  by (cases "(t, fs)" rule: take_key.cases) (auto simp: pmode_ok_def)

lemma pstep_ok: "scalar_ok t \<Longrightarrow> pstep m fs t = Some (m', fs') \<Longrightarrow> pmode_ok m'"
  by (cases m)
     (auto simp: pmode_ok_def [of PValue] pmode_ok_def [of PKey]
        split: token.splits list.splits frame.splits option.splits
        dest: value_start_ok close_array_ok close_object_ok take_key_ok
          deliver_array_ok deliver_object_ok)

lemma parse_run_ok:
  "pmode_ok m \<Longrightarrow> list_all scalar_ok ts \<Longrightarrow> parse_run m fs ts = Some v \<Longrightarrow> v \<noteq> JUndefined"
proof (induction ts arbitrary: m fs)
  case Nil
  then show ?case by (auto simp: pmode_ok_def split: pmode.splits)
next
  case (Cons t ts)
  then obtain m' fs' where s: "pstep m fs t = Some (m', fs')" and r: "parse_run m' fs' ts = Some v"
    by (auto split: option.splits)
  from Cons.prems(2) have "scalar_ok t" "list_all scalar_ok ts" by simp_all
  with pstep_ok [OF _ s] Cons.IH [OF _ _ r] show ?case by simp
qed

lemma JSON_parse_defined: "JSON_parse s \<noteq> Some JUndefined"
proof
  assume a: "JSON_parse s = Some JUndefined"
  then obtain ts where l: "lex_run LIdle s = Some ts" and p: "parse_run PValue [] ts = Some JUndefined"
    by (auto simp: JSON_parse_def split: option.splits)
  have "list_all scalar_ok ts" by (rule lex_run_ok [OF _ l]) (simp add: lstate_ok_def)
  from parse_run_ok [OF _ this p] show False by (simp add: pmode_ok_def)
qed

section \<open>C1: a request never carries an expired token, and clears its session\<close>

text \<open>A token that is stored, not empty and not expired is sent, and nothing is cleared.\<close>

lemma valid_token_is_sent:
  assumes "getToken st = Some t" and "t \<noteq> []" and "\<not> isTokenExpired t (now e)"
  shows "out_headers (fst (snd (request e st endpoint opts answer))) (js ''Authorization'')
           = Some (js ''Bearer '' @ t)
       \<and> fst (request_prologue e st endpoint opts) = st"
  using assms by (simp add: request_parts prologue_headers prologue_storage)

text \<open>
  When the clock does not run backwards during a call, a token that its first test
  reports expired (the test of \<open>upload\<close> for an upload, the first test of \<open>request\<close>
  otherwise) is reported expired by every later test of the call.
\<close>

lemma expired_at_every_test:
  assumes "isTokenExpired t (if is_upload c then now_upload e else now e)"
      and "now_upload e \<le> now e" and "now e \<le> now_again e"
  shows "(is_upload c \<longrightarrow> isTokenExpired t (now_upload e))
       \<and> isTokenExpired t (now e) \<and> isTokenExpired t (now_again e)"
proof -
  have a: "isTokenExpired t (now e)"
    using assms(1,2) expired_stays_expired [of t "now_upload e" "now e"]
    by (cases "is_upload c") simp_all
  with assms(3) expired_stays_expired [of t "now e" "now_again e"]
  have "isTokenExpired t (now_again e)" by simp
  with a assms(1) show ?thesis by (auto split: if_splits)
qed




section \<open>C2: tokens that do not decode count as expired\<close>

lemma atob_undefined: "atob (js ''undefined'') = None"
  by (simp add: b64_defs js_def)

lemma no_second_segment: "second_segment token = None \<Longrightarrow> decode_payload token = None"
  by (simp add: decode_payload_def atob_undefined)

lemma seg_abc: "second_segment (js ''abc'') = None"
  by (simp add: second_segment_def js_def ch_def)

lemma seg_bang: "second_segment (js ''a.!'') = Some (js ''!'')"
  by (simp add: second_segment_def js_def ch_def)

lemma seg_text: "second_segment (js ''a.YWJj.c'') = Some (js ''YWJj'')"
  by (simp add: second_segment_def js_def ch_def)

lemma seg_null: "second_segment (js ''a.bnVsbA.c'') = Some (js ''bnVsbA'')"
  by (simp add: second_segment_def js_def ch_def)

lemma decode_number: "decode_payload (js ''a.MQ.b'') = Some (JNum (Fin 1))"
  by (simp add: tok_defs b64_defs lex_defs)

text \<open>
  C2, as the code has it. \<open>isTokenExpired\<close> returns true for every token that has no
  second dot-delimited segment, or whose second segment \<open>atob\<close> cannot decode, or whose
  decoded second segment is not JSON text, or is the JSON text \<open>null\<close>. The code reads
  the second segment whatever the number of segments, and accepts any JSON value but
  \<open>null\<close> as payload.
\<close>

theorem undecodable_token_is_expired:
  assumes "second_segment token = None
         \<or> (second_segment token = Some seg \<and> atob seg = None)
         \<or> (second_segment token = Some seg \<and> atob seg = Some text \<and> JSON_parse text = None)
         \<or> (second_segment token = Some seg \<and> atob seg = Some text
             \<and> JSON_parse text = Some JNull)"
  shows "isTokenExpired token t"
  using assms
  by (auto simp: isTokenExpired_def decode_payload_def atob_undefined)

text \<open>One token for each of the four cases.\<close>

theorem undecodable_token_is_expired_witness:
  "second_segment (js ''abc'') = None
   \<and> isTokenExpired (js ''abc'') 1700000000000
   \<and> second_segment (js ''a.!'') = Some (js ''!'') \<and> atob (js ''!'') = None
   \<and> isTokenExpired (js ''a.!'') 1700000000000
   \<and> second_segment (js ''a.YWJj.c'') = Some (js ''YWJj'') \<and> atob (js ''YWJj'') = Some (js ''abc'')
   \<and> JSON_parse (js ''abc'') = None
   \<and> isTokenExpired (js ''a.YWJj.c'') 1700000000000
   \<and> second_segment (js ''a.bnVsbA.c'') = Some (js ''bnVsbA'')
   \<and> atob (js ''bnVsbA'') = Some (js ''null'') \<and> JSON_parse (js ''null'') = Some JNull
   \<and> isTokenExpired (js ''a.bnVsbA.c'') 1700000000000"
proof -
  have a1: "atob (js ''!'') = None" by (simp add: b64_defs js_def)
  have a2: "atob (js ''YWJj'') = Some (js ''abc'')" by (simp add: b64_defs js_def)
  have a3: "atob (js ''bnVsbA'') = Some (js ''null'')" by (simp add: b64_defs js_def)
  have p2: "JSON_parse (js ''abc'') = None" by (simp add: JSON_parse_def lex_defs)
  have p3: "JSON_parse (js ''null'') = Some JNull" by (simp add: JSON_parse_def lex_defs)
  have "isTokenExpired (js ''abc'') 1700000000000"
    using undecodable_token_is_expired [of "js ''abc''" "[]" "[]" 1700000000000] seg_abc
    by simp
  moreover have "isTokenExpired (js ''a.!'') 1700000000000"
    using undecodable_token_is_expired [of "js ''a.!''" "js ''!''" "[]" 1700000000000]
      seg_bang a1 by simp
  moreover have "isTokenExpired (js ''a.YWJj.c'') 1700000000000"
    using undecodable_token_is_expired
      [of "js ''a.YWJj.c''" "js ''YWJj''" "js ''abc''" 1700000000000] seg_text a2 p2
    by simp
  moreover have "isTokenExpired (js ''a.bnVsbA.c'') 1700000000000"
    using undecodable_token_is_expired
      [of "js ''a.bnVsbA.c''" "js ''bnVsbA''" "js ''null''" 1700000000000] seg_null a3 p3
    by simp
  ultimately show ?thesis
    using seg_abc seg_bang seg_text seg_null a1 a2 a3 p2 p3 by simp
qed

text \<open>
  C2 as stated fails twice. The token \<open>x.e30\<close> has two segments, not three, and the
  token \<open>a.MQ.b\<close> has a middle segment that decodes to the number \<open>1\<close>, not to an object:
  both payloads have no \<open>exp\<close>, the comparison is with \<open>NaN\<close>, and both count as valid.
\<close>

theorem malformed_tokens_count_as_valid:
  "length (split_on (ch CHR ''.'') (js ''x.e30'')) = 2
   \<and> \<not> isTokenExpired (js ''x.e30'') 1700000000000
   \<and> length (split_on (ch CHR ''.'') (js ''a.MQ.b'')) = 3
   \<and> decode_payload (js ''a.MQ.b'') = Some (JNum (Fin 1))
   \<and> \<not> isTokenExpired (js ''a.MQ.b'') 1700000000000"
proof -
  have "length (split_on (ch CHR ''.'') (js ''x.e30'')) = 2"
    by (simp add: js_def ch_def)
  moreover have "length (split_on (ch CHR ''.'') (js ''a.MQ.b'')) = 3"
    by (simp add: js_def ch_def)
  moreover have "\<not> isTokenExpired (js ''x.e30'') 1700000000000"
    by (simp add: cmp_defs decode_empty_object)
  moreover have "\<not> isTokenExpired (js ''a.MQ.b'') 1700000000000"
    by (simp add: cmp_defs decode_number)
  ultimately show ?thesis by (simp add: decode_number)
qed

section \<open>C3: the comparison of \<open>exp\<close> with the clock\<close>

text \<open>
  With a payload whose \<open>exp\<close> is a number, the result is the comparison of line 76: the
  product of two doubles, rounded, against the clock.
\<close>

lemma expiry_of_number:
  assumes "decode_payload token = Some payload"
      and "get_prop payload (js ''exp'') = JNum n"
  shows "isTokenExpired token t = num_less (num_mult n (Fin 1000)) (Fin (of_int t))"
proof -
  have "payload \<noteq> JNull" and "payload \<noteq> JUndefined"
    using assms(2) by (auto simp: get_prop_def)
  then show ?thesis using assms by (simp add: isTokenExpired_def ToNumber_def)
qed

text \<open>
  C3. When the second segment decodes to a payload whose \<open>exp\<close> is the finite number \<open>x\<close>
  (seconds), \<open>isTokenExpired\<close> at a clock reading \<open>t\<close> (milliseconds, within the range of
  time values, at most 8.64e15 either side of the epoch) returns false if \<open>x\<close> is in the
  future or is the present millisecond, and true if \<open>x\<close> is at least one millisecond in
  the past. Within the last millisecond the rounding of the product decides.
\<close>

theorem expiry_follows_exp_to_the_millisecond:
  assumes "decode_payload token = Some payload"
      and "get_prop payload (js ''exp'') = JNum (Fin x)"
      and "\<bar>t\<bar> \<le> 8640000000000000"
  shows "(of_int t \<le> x * 1000 \<longrightarrow> \<not> isTokenExpired token t)
       \<and> (x * 1000 \<le> of_int t - 1 \<longrightarrow> isTokenExpired token t)"
proof -
  have e: "isTokenExpired token t = num_less (to_double (x * 1000)) (Fin (of_int t))"
    using expiry_of_number [OF assms(1,2)] by (simp add: num_mult_def)
  have b: "\<bar>t\<bar> < 2 ^ 53" "\<bar>t - 1\<bar> < 2 ^ 53" using assms(3) by simp_all
  have "\<not> num_less (to_double (x * 1000)) (Fin (of_int t))" if "of_int t \<le> x * 1000"
    using to_double_ge [OF that b(1)] .
  moreover have "num_less (to_double (x * 1000)) (Fin (of_int t))" if "x * 1000 \<le> of_int t - 1"
  proof -
    from that have "x * 1000 \<le> of_int (t - 1)" by simp
    from to_double_le [OF this _ b(2), of t] show ?thesis by simp
  qed
  ultimately show ?thesis by (simp add: e)
qed

text \<open>
  A token with \<open>exp\<close> 1700000000, in the millisecond of its expiry and one millisecond
  after it.
\<close>

theorem expiry_follows_exp_to_the_millisecond_witness:
  "decode_payload token_1700000000 = Some (JObj [(js ''exp'', JNum (Fin 1700000000))])
   \<and> get_prop (JObj [(js ''exp'', JNum (Fin 1700000000))]) (js ''exp'') = JNum (Fin 1700000000)
   \<and> \<bar>1700000000000 :: int\<bar> \<le> 8640000000000000
   \<and> of_int 1700000000000 \<le> (1700000000 :: rat) * 1000
   \<and> \<not> isTokenExpired token_1700000000 1700000000000
   \<and> \<bar>1700000000001 :: int\<bar> \<le> 8640000000000000
   \<and> (1700000000 :: rat) * 1000 \<le> of_int 1700000000001 - 1
   \<and> isTokenExpired token_1700000000 1700000000001"
proof -
  have g: "get_prop (JObj [(js ''exp'', JNum (Fin 1700000000))]) (js ''exp'')
             = JNum (Fin 1700000000)"
    by (simp add: get_prop_def)
  from expiry_follows_exp_to_the_millisecond [OF decode_1700000000 g, of 1700000000000]
    expiry_follows_exp_to_the_millisecond [OF decode_1700000000 g, of 1700000000001]
    decode_1700000000 g
  show ?thesis by simp
qed

text \<open>
  An \<open>exp\<close> strictly in the past that is not reported expired. The literal
  \<open>1700000000.0009999\<close> is the double \<open>3565158400002097 / 2^21\<close>, a little under
  1700000000.001 seconds; its product with 1000 lies under 1700000000001 by less than
  half the distance to the next double below, and rounds to 1700000000001: at that clock
  reading the comparison is false. In the same way the literal \<open>1699999999.9999999\<close> is
  already the double 1700000000, and the token is not expired at 1700000000000.
\<close>

lemma segment_last_millisecond:
  "second_segment token_last_millisecond = Some (js ''eyJleHAiOjE3MDAwMDAwMDAuMDAwOTk5OX0'')"
  by (simp add: token_last_millisecond_def second_segment_def js_def ch_def)

lemma atob_last_millisecond:
  "atob (js ''eyJleHAiOjE3MDAwMDAwMDAuMDAwOTk5OX0'') = Some (js ''{\"exp\":1700000000.0009999}'')"
  by (simp add: b64_defs js_def)

lemma decode_last_millisecond:
  "decode_payload token_last_millisecond
     = Some (JObj [(js ''exp'', JNum (Fin (3565158400002097 / 2097152)))])"
  by (simp add: token_last_millisecond_def tok_defs b64_defs lex_defs dbl_defs)

lemma segment_rounded_literal:
  "second_segment token_rounded_literal = Some (js ''eyJleHAiOjE2OTk5OTk5OTkuOTk5OTk5OX0'')"
  by (simp add: token_rounded_literal_def second_segment_def js_def ch_def)

lemma atob_rounded_literal:
  "atob (js ''eyJleHAiOjE2OTk5OTk5OTkuOTk5OTk5OX0'') = Some (js ''{\"exp\":1699999999.9999999}'')"
  by (simp add: b64_defs js_def)

lemma decode_rounded_literal:
  "decode_payload token_rounded_literal = Some (JObj [(js ''exp'', JNum (Fin 1700000000))])"
  by (simp add: token_rounded_literal_def tok_defs b64_defs lex_defs dbl_defs)

theorem exp_in_the_last_millisecond_counts_as_valid:
  "second_segment token_last_millisecond = Some (js ''eyJleHAiOjE3MDAwMDAwMDAuMDAwOTk5OX0'')
   \<and> atob (js ''eyJleHAiOjE3MDAwMDAwMDAuMDAwOTk5OX0'') = Some (js ''{\"exp\":1700000000.0009999}'')
   \<and> decode_payload token_last_millisecond
       = Some (JObj [(js ''exp'', JNum (Fin (3565158400002097 / 2097152)))])
   \<and> (3565158400002097 / 2097152 :: rat) * 1000 < of_int 1700000000001
   \<and> \<not> isTokenExpired token_last_millisecond 1700000000001
   \<and> second_segment token_rounded_literal = Some (js ''eyJleHAiOjE2OTk5OTk5OTkuOTk5OTk5OX0'')
   \<and> atob (js ''eyJleHAiOjE2OTk5OTk5OTkuOTk5OTk5OX0'') = Some (js ''{\"exp\":1699999999.9999999}'')
   \<and> \<not> isTokenExpired token_rounded_literal 1700000000000"
proof -
  have a: "\<not> isTokenExpired token_last_millisecond 1700000000001"
    by (simp add: isTokenExpired_def decode_last_millisecond get_prop_def ToNumber_def
        num_less_def num_mult_def js_def dbl_defs)
  have b: "\<not> isTokenExpired token_rounded_literal 1700000000000"
    by (simp add: isTokenExpired_def decode_rounded_literal get_prop_def ToNumber_def
        num_less_def num_mult_def js_def int_double)
  from a b segment_last_millisecond atob_last_millisecond decode_last_millisecond
    segment_rounded_literal atob_rounded_literal
  show ?thesis by simp
qed

text \<open>
  For an \<open>exp\<close> that is a whole number of seconds nothing is rounded away, and the token
  is expired exactly when \<open>exp\<close> is strictly in the past.
\<close>

lemma integer_exp_exact:
  assumes "decode_payload token = Some payload"
      and "get_prop payload (js ''exp'') = JNum (Fin (of_int n))"
      and "\<bar>t\<bar> \<le> 8640000000000000"
  shows "isTokenExpired token t = (n * 1000 < t)"
proof -
  have e: "isTokenExpired token t = num_less (to_double (of_int n * 1000)) (Fin (of_int t))"
    using expiry_of_number [OF assms(1,2)] by (simp add: num_mult_def)
  have b: "\<bar>t\<bar> < 2 ^ 53" "\<bar>t - 1\<bar> < 2 ^ 53" using assms(3) by simp_all
  show ?thesis
  proof (cases "n * 1000 < t")
    case True
    then have "n * 1000 \<le> t - 1" by simp
    then have "(of_int (n * 1000) :: rat) \<le> of_int (t - 1)" by (simp only: of_int_le_iff)
    then have "(of_int n :: rat) * 1000 \<le> of_int (t - 1)" by simp
    from to_double_le [OF this _ b(2), of t] True show ?thesis by (simp add: e)
  next
    case False
    then have "t \<le> n * 1000" by simp
    then have "(of_int t :: rat) \<le> of_int (n * 1000)" by (simp only: of_int_le_iff)
    then have "(of_int t :: rat) \<le> of_int n * 1000" by simp
    from to_double_ge [OF this b(1)] False show ?thesis by (simp add: e)
  qed
qed

section \<open>C4: a 401 response\<close>

text \<open>
  A 401 response whose data is read (its content is not announced as JSON, or its body
  parses) clears the session and fails with \<open>Authentication required\<close>, and no 401
  response gives the caller a result.
\<close>

lemma unauthorized_readable:
  assumes "status r = 401" and "read_data r = Inr data"
  shows "request_try e st (Responded r)
           = (clearTokens st, Inl (Error (js ''Authentication required'')))"
  using assms by (simp add: try_responded after_fetch_def)

lemma unauthorized_never_succeeds:
  assumes "status r = 401"
  shows "\<exists>t. snd (snd (request e st endpoint opts (Responded r))) = Inl t"
  using assms
  by (cases "read_data r") (simp_all add: request_parts try_responded after_fetch_def)

lemma json_answer_unreadable:
  "read_data \<lparr>status = code, statusText = reason,
              content_type = Some (js ''application/json''), body = Inr []\<rparr>
     = Inl (PlatformError (js ''SyntaxError''))"
  by (simp add: read_data_def is_json_def JSON_parse_def lfinish_def js_def)

text \<open>
  C4 fails on the code. \<open>request\<close> reads the body before it looks at the status: for a
  401 response that announces JSON and has an empty body, \<open>response.json()\<close> throws a
  \<open>SyntaxError\<close>, the \<open>catch\<close> block rethrows it, and the lines that clear the session
  and throw \<open>Authentication required\<close> are never reached. The storage is as the
  prologue left it.
\<close>

theorem unauthorized_with_unreadable_body:
  "fst (request e st endpoint opts (json_answer 401 reason []))
     = fst (request_prologue e st endpoint opts)
   \<and> snd (snd (request e st endpoint opts (json_answer 401 reason [])))
     = Inl (PlatformError (js ''SyntaxError''))"
  by (simp add: request_parts try_responded after_fetch_def json_answer_def
      json_answer_unreadable)

text \<open>With a valid session: the session is still there after the 401.\<close>

theorem unauthorized_with_unreadable_body_witness:
  "fst (request env0 (session_of token_1700000100) (js ''/user'')
          \<lparr>opt_method = Some (js ''GET''), opt_headers = Map.empty\<rparr>
          (json_answer 401 (js ''Unauthorized'') []))
     = session_of token_1700000100
   \<and> \<not> session_empty (session_of token_1700000100)
   \<and> snd (snd (request env0 (session_of token_1700000100) (js ''/user'')
          \<lparr>opt_method = Some (js ''GET''), opt_headers = Map.empty\<rparr>
          (json_answer 401 (js ''Unauthorized'') [])))
     = Inl (PlatformError (js ''SyntaxError''))
   \<and> PlatformError (js ''SyntaxError'') \<noteq> Error (js ''Authentication required'')"
  using unauthorized_with_unreadable_body [of env0 "session_of token_1700000100" "js ''/user''"
      "\<lparr>opt_method = Some (js ''GET''), opt_headers = Map.empty\<rparr>" "js ''Unauthorized''"]
  by (simp add: valid_session_prologue) (simp add: session_empty_def session_of_def)

section \<open>C5: a failed login or registration leaves no session\<close>

lemma post_as_request:
  "post e st endpoint answer
     = request e st endpoint \<lparr>opt_method = Some (js ''POST''), opt_headers = Map.empty\<rparr> answer"
  by (simp add: post_def)

lemma post_result_any:
  "snd (snd (post e st endpoint answer)) = snd (snd (post e st endpoint' answer))"
  unfolding post_def by (rule request_result_any)

lemma post_storage_any:
  "fst (post e st endpoint answer) = fst (post e st endpoint' answer)"
  unfolding post_def by (rule request_storage_any)

lemma login_unfold:
  "login e st answer =
     (case snd (snd (post e st (js ''/login'') answer)) of
        Inl t \<Rightarrow> (clearTokens (fst (post e st (js ''/login'') answer)), Inl t)
      | Inr response \<Rightarrow>
          (case snd (login_try e (fst (post e st (js ''/login'') answer)) response) of
             Inl t \<Rightarrow> (clearTokens (fst (login_try e (fst (post e st (js ''/login'') answer)) response)), Inl t)
           | Inr v \<Rightarrow> (fst (login_try e (fst (post e st (js ''/login'') answer)) response), Inr v)))"
  by (cases "post e st (js ''/login'') answer")
     (auto simp: login_def split: sum.splits prod.splits)

lemma register_unfold:
  "register e st answer =
     (case snd (snd (post e st (js ''/register'') answer)) of
        Inl t \<Rightarrow> (clearTokens (fst (post e st (js ''/register'') answer)), Inl t)
      | Inr response \<Rightarrow>
          (case snd (register_try e (fst (post e st (js ''/register'') answer)) response) of
             Inl t \<Rightarrow> (clearTokens (fst (register_try e (fst (post e st (js ''/register'') answer)) response)), Inl t)
           | Inr v \<Rightarrow> (fst (register_try e (fst (post e st (js ''/register'') answer)) response), Inr v)))"
  by (cases "post e st (js ''/register'') answer")
     (auto simp: register_def split: sum.splits prod.splits)

text \<open>Whatever makes them fail, a failed login or registration leaves no session.\<close>

lemma login_failure_clears:
  "snd (login e st answer) = Inl t \<Longrightarrow> session_empty (fst (login e st answer))"
  by (auto simp: login_unfold split: sum.splits)

lemma register_failure_clears:
  "snd (register e st answer) = Inl t \<Longrightarrow> session_empty (fst (register e st answer))"
  by (auto simp: register_unfold split: sum.splits)

lemma login_try_lacking:
  assumes "\<not> truthy (get_prop (get_prop response (js ''data'')) (js ''token''))
         \<or> \<not> truthy (get_prop (get_prop response (js ''data'')) (js ''user''))"
  shows "\<exists>t. snd (login_try e st response) = Inl t"
  using assms by (auto simp: login_try_def Let_def)

lemma register_try_lacking:
  assumes "\<not> truthy (get_prop (get_prop response (js ''data'')) (js ''token''))
         \<or> \<not> truthy (get_prop (get_prop response (js ''data'')) (js ''user''))"
  shows "\<exists>t. snd (register_try e st response) = Inl t"
  using assms by (auto simp: register_try_def Let_def)

text \<open>
  C5, as the code has it. \<open>response\<close> is what the awaited \<open>post\<close> resolved to. When the
  \<open>token\<close> or the \<open>user\<close> of its data is falsy (absent, \<open>null\<close>, \<open>false\<close>, zero or the
  empty string: the tests \<open>!token\<close> and \<open>!user\<close> are all the code applies), \<open>login\<close> and
  \<open>register\<close> both reject and none of the four entries of the session is left in the
  storage, whatever was stored before.
\<close>

theorem failed_login_or_register_leaves_no_session:
  assumes "snd (snd (post e st endpoint answer)) = Inr response"
      and "\<not> truthy (get_prop (get_prop response (js ''data'')) (js ''token''))
         \<or> \<not> truthy (get_prop (get_prop response (js ''data'')) (js ''user''))"
  shows "(\<exists>t. snd (login e st answer) = Inl t) \<and> session_empty (fst (login e st answer))
       \<and> (\<exists>t. snd (register e st answer) = Inl t) \<and> session_empty (fst (register e st answer))"
proof -
  have l: "snd (snd (post e st (js ''/login'') answer)) = Inr response"
    using assms(1) post_result_any [of e st endpoint answer] by simp
  have r: "snd (snd (post e st (js ''/register'') answer)) = Inr response"
    using assms(1) post_result_any [of e st endpoint answer] by simp
  obtain t where t: "snd (login e st answer) = Inl t"
    using login_try_lacking [OF assms(2), of e "fst (post e st (js ''/login'') answer)"]
    by (auto simp: login_unfold l)
  obtain u where u: "snd (register e st answer) = Inl u"
    using register_try_lacking [OF assms(2), of e "fst (post e st (js ''/register'') answer)"]
    by (auto simp: register_unfold r)
  show ?thesis
    using t u login_failure_clears [OF t] register_failure_clears [OF u] by simp
qed

lemma parse_no_token:
  "JSON_parse (js ''{\"success\":true,\"data\":{\"token\":\"\",\"user\":{\"id\":1}}}'')
     = Some (JObj [(js ''success'', JBool True),
                   (js ''data'', JObj [(js ''token'', JStr []),
                                       (js ''user'', JObj [(js ''id'', JNum (Fin 1))])])])"
  by (simp add: JSON_parse_def lex_defs)

lemma post_no_token:
  "snd (snd (post env0 (session_of token_1700000100) (js ''/login'')
        (json_answer 200 (js ''OK'')
           (js ''{\"success\":true,\"data\":{\"token\":\"\",\"user\":{\"id\":1}}}''))))
     = Inr (JObj [(js ''success'', JBool True),
                  (js ''data'', JObj [(js ''token'', JStr []),
                                      (js ''user'', JObj [(js ''id'', JNum (Fin 1))])])])"
  by (simp add: post_def request_parts try_responded after_fetch_def json_answer_def
      read_data_def is_json_def parse_no_token response_ok_def hasOwnProperty_success_def
      has_own_def)
     (simp add: js_def)

text \<open>A response with an empty token, received while a valid session is stored.\<close>

theorem failed_login_or_register_leaves_no_session_witness:
  "snd (snd (post env0 (session_of token_1700000100) (js ''/login'')
        (json_answer 200 (js ''OK'')
           (js ''{\"success\":true,\"data\":{\"token\":\"\",\"user\":{\"id\":1}}}''))))
     = Inr (JObj [(js ''success'', JBool True),
                  (js ''data'', JObj [(js ''token'', JStr []),
                                      (js ''user'', JObj [(js ''id'', JNum (Fin 1))])])])
   \<and> \<not> truthy (get_prop (get_prop (JObj [(js ''success'', JBool True),
                  (js ''data'', JObj [(js ''token'', JStr []),
                                      (js ''user'', JObj [(js ''id'', JNum (Fin 1))])])])
               (js ''data'')) (js ''token''))
   \<and> snd (login env0 (session_of token_1700000100)
        (json_answer 200 (js ''OK'')
           (js ''{\"success\":true,\"data\":{\"token\":\"\",\"user\":{\"id\":1}}}'')))
       = Inl (Error (js ''No authentication token received from server''))
   \<and> session_empty (fst (login env0 (session_of token_1700000100)
        (json_answer 200 (js ''OK'')
           (js ''{\"success\":true,\"data\":{\"token\":\"\",\"user\":{\"id\":1}}}''))))
   \<and> session_empty (fst (register env0 (session_of token_1700000100)
        (json_answer 200 (js ''OK'')
           (js ''{\"success\":true,\"data\":{\"token\":\"\",\"user\":{\"id\":1}}}''))))"
proof -
  have g: "\<not> truthy (get_prop (get_prop (JObj [(js ''success'', JBool True),
                  (js ''data'', JObj [(js ''token'', JStr []),
                                      (js ''user'', JObj [(js ''id'', JNum (Fin 1))])])])
               (js ''data'')) (js ''token''))"
    by (simp add: get_prop_def js_def)
  have m: "snd (login env0 (session_of token_1700000100)
        (json_answer 200 (js ''OK'')
           (js ''{\"success\":true,\"data\":{\"token\":\"\",\"user\":{\"id\":1}}}'')))
       = Inl (Error (js ''No authentication token received from server''))"
    by (simp add: login_unfold post_no_token login_try_def get_prop_def Let_def)
       (simp add: js_def)
  from failed_login_or_register_leaves_no_session [OF post_no_token disjI1 [OF g]] post_no_token g m show ?thesis by simp
qed

text \<open>
  C5 as stated fails for a truthy value that is no token or no user object. A \<open>user\<close>
  that is the string \<open>bob\<close> passes \<open>!user\<close>: \<open>login\<close> resolves and stores the session. A
  \<open>token\<close> that is the empty array passes \<open>!token\<close> and is stored as the empty string:
  \<open>register\<close>, which lacks the check of the stored token that \<open>login\<close> makes, resolves
  and leaves a session with an empty token.
\<close>

lemma parse_string_user:
  "JSON_parse (js ''{\"success\":true,\"data\":{\"token\":\"t1\",\"user\":\"bob\"}}'')
     = Some (JObj [(js ''success'', JBool True),
                   (js ''data'', JObj [(js ''token'', JStr (js ''t1'')),
                                       (js ''user'', JStr (js ''bob''))])])"
  by (simp add: JSON_parse_def lex_defs)

lemma post_string_user:
  "snd (snd (post env0 anonymous (js ''/login'')
        (json_answer 200 (js ''OK'')
           (js ''{\"success\":true,\"data\":{\"token\":\"t1\",\"user\":\"bob\"}}''))))
     = Inr (JObj [(js ''success'', JBool True),
                  (js ''data'', JObj [(js ''token'', JStr (js ''t1'')),
                                      (js ''user'', JStr (js ''bob''))])])"
  by (simp add: post_def request_parts try_responded after_fetch_def json_answer_def
      read_data_def is_json_def parse_string_user response_ok_def hasOwnProperty_success_def
      has_own_def)
     (simp add: js_def)

lemma parse_array_token:
  "JSON_parse (js ''{\"success\":true,\"data\":{\"token\":[],\"user\":{\"id\":1}}}'')
     = Some (JObj [(js ''success'', JBool True),
                   (js ''data'', JObj [(js ''token'', JArr []),
                                       (js ''user'', JObj [(js ''id'', JNum (Fin 1))])])])"
  by (simp add: JSON_parse_def lex_defs)

lemma post_array_token:
  "snd (snd (post env0 anonymous (js ''/register'')
        (json_answer 200 (js ''OK'')
           (js ''{\"success\":true,\"data\":{\"token\":[],\"user\":{\"id\":1}}}''))))
     = Inr (JObj [(js ''success'', JBool True),
                  (js ''data'', JObj [(js ''token'', JArr []),
                                      (js ''user'', JObj [(js ''id'', JNum (Fin 1))])])])"
  by (simp add: post_def request_parts try_responded after_fetch_def json_answer_def
      read_data_def is_json_def parse_array_token response_ok_def hasOwnProperty_success_def
      has_own_def)
     (simp add: js_def)

lemma post_anonymous_storage: "fst (post e anonymous endpoint answer) = anonymous"
proof -
  have "session_empty anonymous" by (simp add: session_empty_def anonymous_def)
  then have "session_empty (fst (request_try e anonymous answer))"
    by (rule request_try_keeps_empty)
  moreover have "fst (request_try e anonymous answer) = anonymous
      \<or> fst (request_try e anonymous answer) = clearTokens anonymous"
    by (rule request_try_storage)
  moreover have "clearTokens anonymous = anonymous"
    by (simp add: clearTokens_def anonymous_def)
  ultimately show ?thesis
    by (auto simp: post_def request_parts anonymous_prologue)
qed

theorem truthy_token_and_user_are_accepted:
  "snd (login env0 anonymous
        (json_answer 200 (js ''OK'')
           (js ''{\"success\":true,\"data\":{\"token\":\"t1\",\"user\":\"bob\"}}'')))
     = Inr (JObj [(js ''token'', JStr (js ''t1'')), (js ''user'', JStr (js ''bob''))])
   \<and> fst (login env0 anonymous
        (json_answer 200 (js ''OK'')
           (js ''{\"success\":true,\"data\":{\"token\":\"t1\",\"user\":\"bob\"}}'')))
     = \<lparr>token_entry = Some (js ''t1''), refresh_entry = None,
        first_time_entry = Some (js ''0''),
        user_entry = Some (Stringified (JStr (js ''bob'')))\<rparr>
   \<and> snd (register env0 anonymous
        (json_answer 200 (js ''OK'')
           (js ''{\"success\":true,\"data\":{\"token\":[],\"user\":{\"id\":1}}}'')))
     = Inr (JObj [(js ''token'', JArr []), (js ''user'', JObj [(js ''id'', JNum (Fin 1))])])
   \<and> fst (register env0 anonymous
        (json_answer 200 (js ''OK'')
           (js ''{\"success\":true,\"data\":{\"token\":[],\"user\":{\"id\":1}}}'')))
     = \<lparr>token_entry = Some [], refresh_entry = None,
        first_time_entry = Some (js ''0''),
        user_entry = Some (Stringified (JObj [(js ''id'', JNum (Fin 1))]))\<rparr>"
proof -
  have lt: "login_try env0 anonymous
        (JObj [(js ''success'', JBool True),
               (js ''data'', JObj [(js ''token'', JStr (js ''t1'')),
                                   (js ''user'', JStr (js ''bob''))])])
     = (\<lparr>token_entry = Some (js ''t1''), refresh_entry = None,
         first_time_entry = Some (js ''0''),
         user_entry = Some (Stringified (JStr (js ''bob'')))\<rparr>,
        Inr (JObj [(js ''token'', JStr (js ''t1'')), (js ''user'', JStr (js ''bob''))]))"
    by (simp add: login_try_def get_prop_def Let_def setToken_def ToString_def
        setFirstTimeLogin_def setUser_def getUser_def getToken_def anonymous_def)
       (simp add: js_def)
  have rt: "register_try env0 anonymous
        (JObj [(js ''success'', JBool True),
               (js ''data'', JObj [(js ''token'', JArr []),
                                   (js ''user'', JObj [(js ''id'', JNum (Fin 1))])])])
     = (\<lparr>token_entry = Some [], refresh_entry = None,
         first_time_entry = Some (js ''0''),
         user_entry = Some (Stringified (JObj [(js ''id'', JNum (Fin 1))]))\<rparr>,
        Inr (JObj [(js ''token'', JArr []), (js ''user'', JObj [(js ''id'', JNum (Fin 1))])]))"
    by (simp add: register_try_def get_prop_def Let_def setToken_def ToString_def
        setFirstTimeLogin_def setUser_def getUser_def getToken_def anonymous_def)
       (simp add: js_def)
  show ?thesis
    by (simp add: login_unfold post_string_user register_unfold post_array_token
        post_anonymous_storage lt rt)
qed

section \<open>C6: logout always ends anonymous\<close>

text \<open>
  C6. Whatever the network answers to the \<open>/logout\<close> request and whether the request
  throws or not, \<open>logout\<close> resolves, the last thing it does is \<open>clearTokens\<close> on the
  storage the request left, and no entry of the session remains.
\<close>

theorem logout_always_clears:
  "fst (logout e st answer) = clearTokens (fst (post e st (js ''/logout'') answer))
   \<and> session_empty (fst (logout e st answer))
   \<and> snd (logout e st answer) = Inr ()"
  by (cases "post e st (js ''/logout'') answer")
     (auto simp: logout_def split: sum.splits)

text \<open>A network failure, a 500 page and a success, each starting from a valid session.\<close>

theorem logout_always_clears_witness:
  "session_empty (fst (logout env0 (session_of token_1700000100) (Rejected NonError)))
   \<and> snd (logout env0 (session_of token_1700000100) (Rejected NonError)) = Inr ()
   \<and> session_empty (fst (logout env0 (session_of token_1700000100)
        (html_answer 500 (js ''Internal Server Error''))))
   \<and> snd (logout env0 (session_of token_1700000100)
        (html_answer 500 (js ''Internal Server Error''))) = Inr ()
   \<and> session_empty (fst (logout env0 (session_of token_1700000100)
        (json_answer 200 (js ''OK'') (js ''{\"success\":true}''))))
   \<and> \<not> session_empty (session_of token_1700000100)"
proof -
  have "\<not> session_empty (session_of token_1700000100)"
    by (simp add: session_empty_def session_of_def)
  with logout_always_clears [of env0 "session_of token_1700000100" "Rejected NonError"]
    logout_always_clears [of env0 "session_of token_1700000100" "html_answer 500 (js ''Internal Server Error'')"]
    logout_always_clears [of env0 "session_of token_1700000100"
          "json_answer 200 (js ''OK'') (js ''{\"success\":true}'')"]
  show ?thesis by simp
qed

section \<open>C7: a request that times out\<close>

text \<open>
  The \<open>catch\<close> block of \<open>request\<close> turns a rejection named \<open>AbortError\<close> into the
  error \<open>Request timeout\<close>.
\<close>

lemma abort_error_is_request_timeout:
  "snd (snd (request e st endpoint opts aborted)) = Inl (Error (js ''Request timeout''))"
  by (simp add: request_parts try_rejected aborted_def)

text \<open>
  C7 fails on the code. When the timeout fires, the rejection named \<open>TimeoutError\<close>
  passes through the \<open>catch\<close> block unchanged: the caller gets the platform's exception
  with the platform's message, not the error \<open>Request timeout\<close> the code builds for the
  name it tests.
\<close>

theorem timeout_is_not_request_timeout:
  "snd (snd (request e st endpoint opts timed_out)) = Inl (PlatformError (js ''TimeoutError''))
   \<and> snd (snd (request e st endpoint opts timed_out)) \<noteq> Inl (Error (js ''Request timeout''))
   \<and> fst (request e st endpoint opts timed_out) = fst (request_prologue e st endpoint opts)"
  by (simp add: request_parts try_rejected timed_out_def)

theorem timeout_is_not_request_timeout_witness:
  "snd (snd (request env0 anonymous (js ''/organisations'') get_options timed_out))
     = Inl (PlatformError (js ''TimeoutError''))
   \<and> snd (snd (request env0 anonymous (js ''/organisations'') get_options timed_out))
     \<noteq> Inl (Error (js ''Request timeout''))"
  using timeout_is_not_request_timeout [of env0 anonymous "js ''/organisations''" get_options]
  by simp

section \<open>C8: the message of an HTTP error\<close>

text \<open>
  C8, as the code has it. For a response with a status outside 200-299 other than 401:
  when its content is not announced as JSON, the error message is always
  \<open>Request failed\<close>; when it is announced as JSON and the body is a JSON object, the
  message is the object's \<open>message\<close> if that is a non-empty string, and
  \<open>HTTP <status>: <statusText>\<close> if the object has no \<open>message\<close> or a falsy one (\<open>null\<close>,
  \<open>false\<close>, \<open>0\<close>, the empty string).
\<close>

theorem http_error_message:
  assumes "status r \<noteq> 401" and "\<not> response_ok r"
  shows "(\<not> is_json r \<longrightarrow>
            snd (snd (request e st endpoint opts (Responded r)))
              = Inl (Error (js ''Request failed'')))
       \<and> (is_json r \<and> body r = Inr doc \<and> JSON_parse doc = Some (JObj ms)
            \<and> get_prop (JObj ms) (js ''message'') = JStr m \<and> m \<noteq> [] \<longrightarrow>
            snd (snd (request e st endpoint opts (Responded r))) = Inl (Error m))
       \<and> (is_json r \<and> body r = Inr doc \<and> JSON_parse doc = Some (JObj ms)
            \<and> \<not> truthy (get_prop (JObj ms) (js ''message'')) \<longrightarrow>
            snd (snd (request e st endpoint opts (Responded r)))
              = Inl (Error (js ''HTTP '' @ nat_to_string (status r) @ js '': '' @ statusText r)))"
proof (intro conjI impI)
  assume "\<not> is_json r"
  then have "read_data r = Inr (JObj [(js ''success'', JBool False),
                                       (js ''message'', JStr (js ''Request failed''))])"
    using assms by (simp add: read_data_def)
  moreover have "get_prop (JObj [(js ''success'', JBool False),
                                 (js ''message'', JStr (js ''Request failed''))])
                   (js ''message'') = JStr (js ''Request failed'')"
    by (simp add: get_prop_def js_def)
  ultimately show "snd (snd (request e st endpoint opts (Responded r)))
                     = Inl (Error (js ''Request failed''))"
    using assms by (simp add: request_parts try_responded after_fetch_def or_text_def js_def)
next
  assume a: "is_json r \<and> body r = Inr doc \<and> JSON_parse doc = Some (JObj ms)
            \<and> get_prop (JObj ms) (js ''message'') = JStr m \<and> m \<noteq> []"
  then have "read_data r = Inr (JObj ms)" by (simp add: read_data_def)
  then show "snd (snd (request e st endpoint opts (Responded r))) = Inl (Error m)"
    using assms a by (simp add: request_parts try_responded after_fetch_def or_text_def)
next
  assume a: "is_json r \<and> body r = Inr doc \<and> JSON_parse doc = Some (JObj ms)
            \<and> \<not> truthy (get_prop (JObj ms) (js ''message''))"
  then have "read_data r = Inr (JObj ms)" by (simp add: read_data_def)
  then show "snd (snd (request e st endpoint opts (Responded r)))
              = Inl (Error (js ''HTTP '' @ nat_to_string (status r) @ js '': '' @ statusText r))"
    using assms a
    by (simp add: request_parts try_responded after_fetch_def or_text_def)
qed

lemma parse_taken:
  "JSON_parse (js ''{\"message\":\"Email taken\"}'')
     = Some (JObj [(js ''message'', JStr (js ''Email taken''))])"
  by (simp add: JSON_parse_def lex_defs)

lemma parse_boom:
  "JSON_parse (js ''{\"error\":\"boom\"}'') = Some (JObj [(js ''error'', JStr (js ''boom''))])"
  by (simp add: JSON_parse_def lex_defs)

lemma is_json_plain: "is_json \<lparr>status = c, statusText = s, content_type = Some (js ''application/json''), body = b\<rparr>"
  by (simp add: is_json_def js_def)

lemma not_json_html: "\<not> is_json \<lparr>status = c, statusText = s, content_type = Some (js ''text/html''), body = b\<rparr>"
  by (simp add: is_json_def js_def)

text \<open>
  A gateway's HTML page, a validation error with a message, and a JSON error without one.
\<close>

theorem http_error_message_witness:
  "snd (snd (request env0 anonymous (js ''/organisations'') get_options
               (html_answer 502 (js ''Bad Gateway''))))
     = Inl (Error (js ''Request failed''))
   \<and> JSON_parse (js ''{\"message\":\"Email taken\"}'')
       = Some (JObj [(js ''message'', JStr (js ''Email taken''))])
   \<and> snd (snd (request env0 anonymous (js ''/organisations'') get_options
               (json_answer 422 (js ''Unprocessable Content'')
                  (js ''{\"message\":\"Email taken\"}''))))
     = Inl (Error (js ''Email taken''))
   \<and> JSON_parse (js ''{\"error\":\"boom\"}'') = Some (JObj [(js ''error'', JStr (js ''boom''))])
   \<and> snd (snd (request env0 anonymous (js ''/organisations'') get_options
               (json_answer 500 (js ''Internal Server Error'') (js ''{\"error\":\"boom\"}''))))
     = Inl (Error (js ''HTTP 500: Internal Server Error''))"
proof -
  have "snd (snd (request env0 anonymous (js ''/organisations'') get_options
               (html_answer 502 (js ''Bad Gateway''))))
     = Inl (Error (js ''Request failed''))"
    using http_error_message [where r = "\<lparr>status = 502, statusText = js ''Bad Gateway'',
        content_type = Some (js ''text/html''), body = Inr (js ''<html></html>'')\<rparr>"
        and e = env0 and st = anonymous and endpoint = "js ''/organisations''"
        and opts = get_options]
    by (simp add: html_answer_def response_ok_def not_json_html)
  moreover have "snd (snd (request env0 anonymous (js ''/organisations'') get_options
               (json_answer 422 (js ''Unprocessable Content'')
                  (js ''{\"message\":\"Email taken\"}''))))
     = Inl (Error (js ''Email taken''))"
    using http_error_message [where r = "\<lparr>status = 422,
        statusText = js ''Unprocessable Content'',
        content_type = Some (js ''application/json''),
        body = Inr (js ''{\"message\":\"Email taken\"}'')\<rparr>"
        and doc = "js ''{\"message\":\"Email taken\"}''"
        and ms = "[(js ''message'', JStr (js ''Email taken''))]" and m = "js ''Email taken''"
        and e = env0 and st = anonymous and endpoint = "js ''/organisations''"
        and opts = get_options]
    by (simp add: json_answer_def response_ok_def is_json_plain parse_taken get_prop_def)
       (simp add: js_def)
  moreover have "snd (snd (request env0 anonymous (js ''/organisations'') get_options
               (json_answer 500 (js ''Internal Server Error'') (js ''{\"error\":\"boom\"}''))))
     = Inl (Error (js ''HTTP 500: Internal Server Error''))"
    using http_error_message [where r = "\<lparr>status = 500,
        statusText = js ''Internal Server Error'',
        content_type = Some (js ''application/json''),
        body = Inr (js ''{\"error\":\"boom\"}'')\<rparr>"
        and doc = "js ''{\"error\":\"boom\"}''"
        and ms = "[(js ''error'', JStr (js ''boom''))]"
        and e = env0 and st = anonymous and endpoint = "js ''/organisations''"
        and opts = get_options]
    by (simp add: json_answer_def response_ok_def is_json_plain parse_boom get_prop_def)
       (simp add: js_def nat_to_string.simps)
  ultimately show ?thesis by (simp add: parse_taken parse_boom)
qed

text \<open>
  C8 as stated fails for a body that is not JSON. A 500 response with an HTML body gives
  the message \<open>Request failed\<close>, not \<open>HTTP 500: Internal Server Error\<close>: the code
  replaces such a body by an envelope that always has a message. The same body announced
  as JSON gives neither: the \<open>SyntaxError\<close> of \<open>response.json()\<close> reaches the caller.
\<close>

theorem non_json_error_is_request_failed:
  "snd (snd (request env0 anonymous (js ''/organisations'') get_options
               (html_answer 500 (js ''Internal Server Error''))))
     = Inl (Error (js ''Request failed''))
   \<and> js ''Request failed'' \<noteq> js ''HTTP 500: Internal Server Error''
   \<and> JSON_parse (js ''<html></html>'') = None
   \<and> snd (snd (request env0 anonymous (js ''/organisations'') get_options
               (json_answer 500 (js ''Internal Server Error'') (js ''<html></html>''))))
     = Inl (PlatformError (js ''SyntaxError''))"
proof -
  have p: "JSON_parse (js ''<html></html>'') = None"
    by (simp add: JSON_parse_def lex_defs)
  have "read_data \<lparr>status = 500, statusText = js ''Internal Server Error'',
          content_type = Some (js ''text/html''), body = Inr (js ''<html></html>'')\<rparr>
        = Inr (JObj [(js ''success'', JBool False), (js ''message'', JStr (js ''Request failed''))])"
    by (simp add: read_data_def not_json_html response_ok_def)
  then have "snd (snd (request env0 anonymous (js ''/organisations'') get_options
               (html_answer 500 (js ''Internal Server Error''))))
     = Inl (Error (js ''Request failed''))"
    by (simp add: html_answer_def request_parts try_responded after_fetch_def response_ok_def
        or_text_def get_prop_def) (simp add: js_def)
  moreover have "read_data \<lparr>status = 500, statusText = js ''Internal Server Error'',
          content_type = Some (js ''application/json''), body = Inr (js ''<html></html>'')\<rparr>
        = Inl (PlatformError (js ''SyntaxError''))"
    by (simp add: read_data_def is_json_plain p)
  then have "snd (snd (request env0 anonymous (js ''/organisations'') get_options
               (json_answer 500 (js ''Internal Server Error'') (js ''<html></html>''))))
     = Inl (PlatformError (js ''SyntaxError''))"
    by (simp add: json_answer_def request_parts try_responded after_fetch_def)
  moreover have "js ''Request failed'' \<noteq> js ''HTTP 500: Internal Server Error''"
    by (simp add: js_def)
  ultimately show ?thesis using p by simp
qed

section \<open>C9: a payload without \<open>exp\<close>\<close>

text \<open>
  C9, as the code has it. When the second segment decodes to a JSON object that has no
  member \<open>exp\<close> at all, \<open>isTokenExpired\<close> returns false: \<open>undefined * 1000\<close> is \<open>NaN\<close>,
  and no comparison with \<open>NaN\<close> holds.
\<close>

theorem token_without_exp_never_expires:
  assumes "decode_payload token = Some (JObj ms)" and "js ''exp'' \<notin> fst ` set ms"
  shows "\<not> isTokenExpired token t"
  using assms by (simp add: isTokenExpired_def get_prop_absent ToNumber_def num_less_def num_mult_def)

theorem token_without_exp_never_expires_witness:
  "decode_payload (js ''x.e30'') = Some (JObj []) \<and> js ''exp'' \<notin> fst ` set ([] :: (jsstring \<times> jsval) list)
   \<and> \<not> isTokenExpired (js ''x.e30'') 1700000000000"
  using token_without_exp_never_expires [OF decode_empty_object, of 1700000000000] decode_empty_object by simp

lemma decode_null_exp:
  "decode_payload (js ''h.eyJleHAiOm51bGx9.s'') = Some (JObj [(js ''exp'', JNull)])"
  by (simp add: tok_defs b64_defs lex_defs)

text \<open>
  C9 as stated fails when \<open>exp\<close> is there but is not a number. The payload
  \<open>{"exp":null}\<close> has no numeric \<open>exp\<close>, yet \<open>null * 1000\<close> is \<open>0\<close>, which is before
  any clock reading of today: the token counts as expired.
\<close>

theorem null_exp_counts_as_expired:
  "decode_payload (js ''h.eyJleHAiOm51bGx9.s'') = Some (JObj [(js ''exp'', JNull)])
   \<and> isTokenExpired (js ''h.eyJleHAiOm51bGx9.s'') 1700000000000"
  by (simp add: cmp_defs decode_null_exp)

section \<open>C10: a failed organization lookup resolves to null\<close>

lemma get_request_result_any:
  "snd (snd (get_request e st endpoint params answer))
     = snd (snd (get_request e st endpoint' params' answer))"
  unfolding get_request_def by (rule request_result_any)

lemma getUserOrganization_unfold:
  "getUserOrganization e st answer =
     (case getStoredUser st of
        Inl t \<Rightarrow> (st, False, Inr JNull)
      | Inr user \<Rightarrow>
          if \<not> truthy user \<or> \<not> truthy (get_prop user (js ''organisation_id'')) then
            (st, False, Inr JNull)
          else
            (case ToString e (get_prop user (js ''organisation_id'')) of
               Inl t \<Rightarrow> (st, False, Inr JNull)
             | Inr ident \<Rightarrow>
                 (fst (get_request e st (js ''/organisations/'' @ ident) None answer), True,
                  case snd (snd (get_request e st (js ''/organisations/'' @ ident) None answer)) of
                    Inl t \<Rightarrow> Inr JNull
                  | Inr response \<Rightarrow>
                      if truthy (get_prop response (js ''success''))
                         \<and> truthy (get_prop response (js ''data''))
                      then Inr (get_prop response (js ''data''))
                      else Inr JNull)))"
  by (auto simp: getUserOrganization_def split: sum.splits prod.splits)

text \<open>
  C10. When the request \<open>getUserOrganization\<close> makes throws (a rejected \<open>fetch\<close>, a
  timeout, a 401 or another HTTP error), the call resolves to \<open>null\<close>: the value it
  also resolves to when there is no organization to look up.
\<close>

theorem failed_lookup_resolves_to_null:
  assumes "snd (snd (get_request e st endpoint None answer)) = Inl t"
  shows "snd (snd (getUserOrganization e st answer)) = Inr JNull"
proof -
  have "\<And>ep. snd (snd (get_request e st ep None answer)) = Inl t"
    using assms get_request_result_any [of e st endpoint None answer] by simp
  then show ?thesis
    by (simp add: getUserOrganization_unfold split: sum.splits)
qed

lemma stored_user:
  "getStoredUser (session_of tok)
     = Inr (JObj [(js ''id'', JNum (Fin 1)), (js ''organisation_id'', JNum (Fin 7))])"
  by (simp add: getStoredUser_def getUser_def session_of_def JSON_parse_def lex_defs)

text \<open>
  A user of organization 7 and a network failure: the request is sent, and the result
  is the \<open>null\<close> an anonymous caller gets without any request.
\<close>

theorem failed_lookup_resolves_to_null_witness:
  "snd (snd (get_request env0 (session_of token_1700000100) (js ''/organisations/7'') None
               (Rejected (PlatformError (js ''TypeError'')))))
     = Inl (PlatformError (js ''TypeError''))
   \<and> fst (snd (getUserOrganization env0 (session_of token_1700000100)
               (Rejected (PlatformError (js ''TypeError'')))))
   \<and> snd (snd (getUserOrganization env0 (session_of token_1700000100)
               (Rejected (PlatformError (js ''TypeError''))))) = Inr JNull
   \<and> getUserOrganization env0 anonymous (Rejected (PlatformError (js ''TypeError'')))
       = (anonymous, False, Inr JNull)"
proof -
  have n: "getUserOrganization env0 anonymous (Rejected (PlatformError (js ''TypeError'')))
       = (anonymous, False, Inr JNull)"
    by (simp add: getUserOrganization_unfold getStoredUser_def getUser_def anonymous_def)
  have h: "snd (snd (get_request env0 (session_of token_1700000100) (js ''/organisations/7'') None
               (Rejected (PlatformError (js ''TypeError'')))))
     = Inl (PlatformError (js ''TypeError''))"
    by (simp add: get_request_def request_parts try_rejected)
  have "fst (snd (getUserOrganization env0 (session_of token_1700000100)
               (Rejected (PlatformError (js ''TypeError'')))))"
    by (simp add: getUserOrganization_unfold stored_user get_prop_def ToString_def)
  with failed_lookup_resolves_to_null [OF h] h n show ?thesis by simp
qed


text \<open>
  Without a stored user there is no organization to look up: no request is made, and
  the call resolves to the same \<open>null\<close>.
\<close>

lemma no_user_resolves_to_null:
  "user_entry st = None \<Longrightarrow> getUserOrganization e st answer = (st, False, Inr JNull)"
  by (simp add: getUserOrganization_def getStoredUser_def getUser_def)

end
